theory Spec2Isabelle
  imports Complex_Main "HOL-Library.Multiset"
begin

section \<open>Values, arrays and errors\<close>

text \<open>
  The notebooks are sequential Python scripts over NumPy arrays and PyTorch tensors.
  A one-dimensional array is a list of numbers, a two-dimensional array (a table, a
  batch of feature rows) is a list of rows. Numbers are real numbers: the rounding of
  the 32 and 64 bit floating point formats is not modelled, so every statement below is
  one of exact arithmetic. An exception raised by the script or by a library call is a
  value \<open>Inl e\<close> of the result type.
\<close>

datatype py_error =
    ValueError | RuntimeError | TypeError | ZeroDivisionError | FileNotFoundError

type_synonym 'a result = "py_error + 'a"

type_synonym vec = "real list"

type_synonym matrix = "real list list"

text \<open>\<open>X.shape[1]\<close> of a two-dimensional array.\<close>

definition n_features :: "matrix \<Rightarrow> nat" where
  "n_features X = (case X of [] \<Rightarrow> 0 | r # _ \<Rightarrow> length r)"

text \<open>A list of rows is an array of shape \<open>(length X, d)\<close> when every row has \<open>d\<close> entries.\<close>

definition has_width :: "nat \<Rightarrow> matrix \<Rightarrow> bool" where
  "has_width d X = list_all (\<lambda>r. length r = d) X"

definition column :: "matrix \<Rightarrow> nat \<Rightarrow> vec" where
  "column X j = map (\<lambda>r. r ! j) X"

definition np_mean :: "vec \<Rightarrow> real" where
  "np_mean v = sum_list v / real (length v)"

definition np_var :: "vec \<Rightarrow> real" where
  "np_var v = np_mean (map (\<lambda>x. (x - np_mean v)\<^sup>2) v)"

definition np_std :: "vec \<Rightarrow> real" where
  "np_std v = sqrt (np_var v)"


section \<open>Splitting: \<open>sklearn.model_selection.train_test_split\<close>\<close>

text \<open>
  Both notebooks call \<open>train_test_split(X, y, test_size=..., random_state=42)\<close>.
  The function belongs to scikit-learn (pinned to 1.0.2 by the job's conda file), not to
  the repository; it is modelled after that library's behaviour for a float
  \<open>test_size\<close>, no \<open>train_size\<close> and \<open>shuffle=True\<close>:
  \<^item> \<open>_validate_shuffle_split\<close> refuses a fraction outside the open interval (0, 1),
    takes \<open>n_test = ceil(test_size * n_samples)\<close> and \<open>n_train = n_samples - n_test\<close>,
    and refuses an empty training part;
  \<^item> \<open>ShuffleSplit\<close> draws one permutation of the row indices from the seeded
    generator, gives its first \<open>n_test\<close> entries to the test part and the next
    \<open>n_train\<close> entries to the training part;
  \<^item> every array is indexed with the two index lists.
  The seeded generator is the parameter \<open>permutation\<close>: \<open>permutation n\<close> is what
  \<open>RandomState(42).permutation(n)\<close> returns. Each call builds its generator afresh from
  the seed 42, so both splits of the training script use the same function. The product
  \<open>test_size * n_samples\<close> is the exact one; its floating point rounding is not modelled.
\<close>

definition validate_shuffle_split :: "nat \<Rightarrow> real \<Rightarrow> (nat \<times> nat) result" where
  "validate_shuffle_split n_samples test_size =
     (if test_size \<le> 0 \<or> test_size \<ge> 1 then Inl ValueError
      else
        let n_test = nat \<lceil>test_size * real n_samples\<rceil>;
            n_train = n_samples - n_test
        in if n_train = 0 then Inl ValueError else Inr (n_train, n_test))"

definition safe_indexing :: "'a list \<Rightarrow> nat list \<Rightarrow> 'a list" where
  "safe_indexing a ind = map (\<lambda>i. a ! i) ind"

definition train_test_split ::
  "(nat \<Rightarrow> nat list) \<Rightarrow> 'a list \<Rightarrow> 'b list \<Rightarrow> real
     \<Rightarrow> ('a list \<times> 'a list \<times> 'b list \<times> 'b list) result" where
  "train_test_split permutation X y test_size =
     (if length X \<noteq> length y then Inl ValueError
      else
        case validate_shuffle_split (length X) test_size of
          Inl e \<Rightarrow> Inl e
        | Inr (n_train, n_test) \<Rightarrow>
            let p = permutation (length X);
                ind_test = take n_test p;
                ind_train = take n_train (drop n_test p)
            in Inr (safe_indexing X ind_train, safe_indexing X ind_test,
                    safe_indexing y ind_train, safe_indexing y ind_test))"

text \<open>
  The two splitting statements of \<open>main\<close> in the training script:
  \<^verbatim>\<open>X_train, X_test, y_train, y_test = train_test_split(X, y, test_size=args.test_train_ratio, random_state=42)\<close>
  \<^verbatim>\<open>X_train_final, X_val, y_train_final, y_val = train_test_split(X_train, y_train, test_size=0.2, random_state=42)\<close>
  The result lists the three partitions in the order train, validation, test.
\<close>

definition main_split ::
  "(nat \<Rightarrow> nat list) \<Rightarrow> real \<Rightarrow> 'a list \<Rightarrow> 'b list
     \<Rightarrow> (('a list \<times> 'b list) \<times> ('a list \<times> 'b list) \<times> ('a list \<times> 'b list)) result" where
  "main_split permutation test_train_ratio X y =
     (case train_test_split permutation X y test_train_ratio of
        Inl e \<Rightarrow> Inl e
      | Inr (X_train, X_test, y_train, y_test) \<Rightarrow>
          (case train_test_split permutation X_train y_train 0.2 of
             Inl e \<Rightarrow> Inl e
           | Inr (X_train_final, X_val, y_train_final, y_val) \<Rightarrow>
               Inr ((X_train_final, y_train_final), (X_val, y_val), (X_test, y_test))))"


section \<open>Standardizing: \<open>sklearn.preprocessing.StandardScaler\<close>\<close>

text \<open>
  \<open>StandardScaler\<close> is scikit-learn's as well. \<open>fit\<close> stores, per feature column, the
  mean (the attribute \<open>mean_\<close>, here \<open>fitted_mean\<close>), the population variance
  (\<open>var_\<close>) and the divisor (\<open>scale_\<close>). The divisor is the square root of the
  variance, except for the columns the library takes to be constant, where it is 1. The
  library documents it of \<open>scale_\<close>: if a variance is zero, unit variance cannot be
  achieved, and the data is left as it is, with a scaling factor of 1. Its test for a
  constant column is the comparison of \<open>_is_constant_feature\<close>,
  \<^verbatim>\<open>var <= n_samples * eps * var + (n_samples * mean * eps) ** 2\<close>
  with \<open>eps\<close> the machine epsilon of 64 bit floats, \<open>2 ** -52\<close>; it holds when the variance
  is zero and also when it is nonzero but below this bound. The mask it gives is passed
  to \<open>_handle_zeros_in_scale\<close>, which sets the masked divisors to 1.
  \<open>transform\<close> computes \<open>(X - mean_) / scale_\<close>. Both refuse an array with no row or no
  column, and \<open>transform\<close> refuses an array whose number of columns is not the fitted
  one. Mean, variance and the bound are the exact ones here; the rounding of the
  library's floating point computation of them is not modelled.
\<close>

record StandardScaler =
  fitted_mean :: vec
  fitted_var :: vec
  fitted_scale :: vec

definition float64_eps :: real where
  "float64_eps = 1 / 2 ^ 52"

definition is_constant_feature :: "real \<Rightarrow> real \<Rightarrow> nat \<Rightarrow> bool" where
  "is_constant_feature var mean n_samples =
     (var \<le> real n_samples * float64_eps * var + (real n_samples * mean * float64_eps)\<^sup>2)"

definition handle_zeros_in_scale :: "real \<Rightarrow> bool \<Rightarrow> real" where
  "handle_zeros_in_scale scale constant_mask = (if constant_mask then 1 else scale)"

definition fit :: "matrix \<Rightarrow> StandardScaler result" where
  "fit X =
     (if X = [] \<or> n_features X = 0 then Inl ValueError
      else
        let cols = map (column X) [0..<n_features X]
        in Inr \<lparr>fitted_mean = map np_mean cols,
                fitted_var = map np_var cols,
                fitted_scale =
                  map (\<lambda>c. handle_zeros_in_scale (np_std c)
                             (is_constant_feature (np_var c) (np_mean c) (length X)))
                    cols\<rparr>)"

text \<open>Whether \<open>fit\<close> on the table \<open>T\<close> takes feature \<open>j\<close> to be constant.\<close>

definition treated_as_constant :: "matrix \<Rightarrow> nat \<Rightarrow> bool" where
  "treated_as_constant T j =
     is_constant_feature (np_var (column T j)) (np_mean (column T j)) (length T)"

definition transform :: "StandardScaler \<Rightarrow> matrix \<Rightarrow> matrix result" where
  "transform self X =
     (if X = [] \<or> n_features X = 0 then Inl ValueError
      else if n_features X \<noteq> length (fitted_mean self) then Inl ValueError
      else Inr (map (\<lambda>r. map (\<lambda>j. (r ! j - fitted_mean self ! j) / fitted_scale self ! j)
                              [0..<length (fitted_mean self)]) X))"

definition fit_transform :: "matrix \<Rightarrow> (StandardScaler \<times> matrix) result" where
  "fit_transform X =
     (case fit X of
        Inl e \<Rightarrow> Inl e
      | Inr self \<Rightarrow> (case transform self X of Inl e \<Rightarrow> Inl e | Inr Z \<Rightarrow> Inr (self, Z)))"

text \<open>
  The data preparation of \<open>main\<close> in the training script: the two splits, then
  \<^verbatim>\<open>scaler = StandardScaler()\<close>
  \<^verbatim>\<open>X_train_scaled = scaler.fit_transform(X_train_final)\<close>
  \<^verbatim>\<open>X_val_scaled = scaler.transform(X_val)\<close>
  \<^verbatim>\<open>X_test_scaled = scaler.transform(X_test)\<close>
\<close>

record prepared =
  X_train_final :: matrix
  X_val :: matrix
  X_test :: matrix
  scaler :: StandardScaler
  X_train_scaled :: matrix
  X_val_scaled :: matrix
  X_test_scaled :: matrix

definition main_prepare_data ::
  "(nat \<Rightarrow> nat list) \<Rightarrow> real \<Rightarrow> matrix \<Rightarrow> vec \<Rightarrow> prepared result" where
  "main_prepare_data permutation test_train_ratio X y =
     (case main_split permutation test_train_ratio X y of
        Inl e \<Rightarrow> Inl e
      | Inr ((Xtr, ytr), (Xva, yva), (Xte, yte)) \<Rightarrow>
          (case fit_transform Xtr of
             Inl e \<Rightarrow> Inl e
           | Inr (sc, Ztr) \<Rightarrow>
               (case transform sc Xva of
                  Inl e \<Rightarrow> Inl e
                | Inr Zva \<Rightarrow>
                    (case transform sc Xte of
                       Inl e \<Rightarrow> Inl e
                     | Inr Zte \<Rightarrow>
                         Inr \<lparr>X_train_final = Xtr, X_val = Xva, X_test = Xte, scaler = sc,
                              X_train_scaled = Ztr, X_val_scaled = Zva,
                              X_test_scaled = Zte\<rparr>))))"

text \<open>
  The preprocessing cell of the tutorial notebook has one split and no validation
  partition:
  \<^verbatim>\<open>X_train, X_test, y_train, y_test = train_test_split(X, y, test_size=0.2, random_state=42)\<close>
  \<^verbatim>\<open>scaler = StandardScaler()\<close>
  \<^verbatim>\<open>X_train_scaled = scaler.fit_transform(X_train)\<close>
  \<^verbatim>\<open>X_test_scaled = scaler.transform(X_test)\<close>
\<close>

definition notebook_preprocess ::
  "(nat \<Rightarrow> nat list) \<Rightarrow> matrix \<Rightarrow> vec
     \<Rightarrow> (matrix \<times> matrix \<times> StandardScaler \<times> matrix \<times> matrix) result" where
  "notebook_preprocess permutation X y =
     (case train_test_split permutation X y 0.2 of
        Inl e \<Rightarrow> Inl e
      | Inr (X_train, X_test0, y_train, y_test) \<Rightarrow>
          (case fit_transform X_train of
             Inl e \<Rightarrow> Inl e
           | Inr (sc, Ztr) \<Rightarrow>
               (case transform sc X_test0 of
                  Inl e \<Rightarrow> Inl e
                | Inr Zte \<Rightarrow> Inr (X_train, X_test0, sc, Ztr, Zte))))"

text \<open>
  Data for the worked examples below: a function that returns permutations (for five and
  for four rows the ones that NumPy's generator seeded with 42 is understood to return,
  the identity otherwise), and the table of \<open>n\<close> rows and \<open>n\<close> features whose row \<open>i\<close>
  is 1 at feature \<open>i\<close> and 0 elsewhere.
\<close>

definition example_permutation :: "nat \<Rightarrow> nat list" where
  "example_permutation n =
     (if n = 5 then [1, 4, 2, 0, 3] else if n = 4 then [1, 3, 0, 2] else [0..<n])"

definition one_hot_table :: "nat \<Rightarrow> matrix" where
  "one_hot_table n = map (\<lambda>i. map (\<lambda>j. if i = j then 1 else 0) [0..<n]) [0..<n]"


section \<open>The model: \<open>WineQualityNet\<close>\<close>

text \<open>
  \<open>nn.Linear(n_in, n_out)\<close> holds a weight of shape \<open>(n_out, n_in)\<close> and a bias of shape
  \<open>(n_out)\<close>; its initial values are drawn at random and are the parameters \<open>w_init\<close>
  and \<open>b_init\<close> here. Applied to a batch it maps each row \<open>x\<close> to \<open>W x + b\<close>, and raises
  when the rows do not have \<open>n_in\<close> entries.
\<close>

record Linear =
  in_features :: nat
  out_features :: nat
  weight :: matrix
  bias :: vec

definition nn_Linear :: "(nat \<Rightarrow> nat \<Rightarrow> real) \<Rightarrow> (nat \<Rightarrow> real) \<Rightarrow> nat \<Rightarrow> nat \<Rightarrow> Linear" where
  "nn_Linear w_init b_init n_in n_out =
     \<lparr>in_features = n_in, out_features = n_out,
      weight = map (\<lambda>i. map (\<lambda>j. w_init i j) [0..<n_in]) [0..<n_out],
      bias = map b_init [0..<n_out]\<rparr>"

definition dot :: "vec \<Rightarrow> vec \<Rightarrow> real" where
  "dot u v = sum_list (map2 (\<lambda>a b. a * b) u v)"

definition linear_row :: "Linear \<Rightarrow> vec \<Rightarrow> vec" where
  "linear_row l x = map2 (\<lambda>w b. dot w x + b) (weight l) (bias l)"

definition Linear_forward :: "Linear \<Rightarrow> matrix \<Rightarrow> matrix result" where
  "Linear_forward l x =
     (if has_width (in_features l) x then Inr (map (linear_row l) x) else Inl RuntimeError)"

definition relu :: "matrix \<Rightarrow> matrix" where
  "relu x = map (map (\<lambda>v. max 0 v)) x"

text \<open>
  \<open>nn.Dropout(p)\<close>: in training mode every entry is kept with probability \<open>1 - p\<close> and
  divided by \<open>1 - p\<close>, or replaced by zero; in evaluation mode the input is returned as
  it is. The random draw is the parameter \<open>keep\<close>: \<open>keep i j\<close> tells whether entry \<open>j\<close>
  of row \<open>i\<close> is kept.
\<close>

type_synonym mask = "nat \<Rightarrow> nat \<Rightarrow> bool"

definition Dropout_forward :: "real \<Rightarrow> bool \<Rightarrow> mask \<Rightarrow> matrix \<Rightarrow> matrix" where
  "Dropout_forward p training_mode keep x =
     (if training_mode
      then map (\<lambda>i. map (\<lambda>j. if keep i j then x ! i ! j / (1 - p) else 0) [0..<length (x ! i)])
             [0..<length x]
      else x)"

text \<open>
  \<^verbatim>\<open>
  class WineQualityNet(nn.Module):
      def __init__(self, input_dim):
          self.fc1 = nn.Linear(input_dim, 64)
          self.fc2 = nn.Linear(64, 32)
          self.fc3 = nn.Linear(32, 16)
          self.fc4 = nn.Linear(16, 1)
          self.relu = nn.ReLU()
          self.dropout = nn.Dropout(0.2)
      def forward(self, x):
          x = self.relu(self.fc1(x))
          x = self.dropout(x)
          x = self.relu(self.fc2(x))
          x = self.dropout(x)
          x = self.relu(self.fc3(x))
          x = self.fc4(x)
          return x
  \<close>
  A module is in training mode when it is built; \<open>model.train()\<close> and \<open>model.eval()\<close>
  set the flag \<open>training\<close>.
\<close>

record WineQualityNet =
  fc1 :: Linear
  fc2 :: Linear
  fc3 :: Linear
  fc4 :: Linear
  dropout_p :: real
  training :: bool

definition WineQualityNet_init ::
  "(nat \<Rightarrow> nat \<Rightarrow> nat \<Rightarrow> real) \<Rightarrow> (nat \<Rightarrow> nat \<Rightarrow> real) \<Rightarrow> nat \<Rightarrow> WineQualityNet" where
  "WineQualityNet_init w_init b_init input_dim =
     \<lparr>fc1 = nn_Linear (w_init 1) (b_init 1) input_dim 64,
      fc2 = nn_Linear (w_init 2) (b_init 2) 64 32,
      fc3 = nn_Linear (w_init 3) (b_init 3) 32 16,
      fc4 = nn_Linear (w_init 4) (b_init 4) 16 1,
      dropout_p = 0.2,
      training = True\<rparr>"

definition train_mode :: "WineQualityNet \<Rightarrow> WineQualityNet" where
  "train_mode self = self\<lparr>training := True\<rparr>"

definition eval_mode :: "WineQualityNet \<Rightarrow> WineQualityNet" where
  "eval_mode self = self\<lparr>training := False\<rparr>"

definition forward :: "WineQualityNet \<Rightarrow> mask \<Rightarrow> mask \<Rightarrow> matrix \<Rightarrow> matrix result" where
  "forward self keep1 keep2 x =
     (case Linear_forward (fc1 self) x of
        Inl e \<Rightarrow> Inl e
      | Inr a1 \<Rightarrow>
          let x1 = Dropout_forward (dropout_p self) (training self) keep1 (relu a1)
          in (case Linear_forward (fc2 self) x1 of
                Inl e \<Rightarrow> Inl e
              | Inr a2 \<Rightarrow>
                  let x2 = Dropout_forward (dropout_p self) (training self) keep2 (relu a2)
                  in (case Linear_forward (fc3 self) x2 of
                        Inl e \<Rightarrow> Inl e
                      | Inr a3 \<Rightarrow> Linear_forward (fc4 self) (relu a3))))"

text \<open>
  The parameters of the model are the weight and bias tensors of its four linear layers.
\<close>

definition parameters :: "WineQualityNet \<Rightarrow> (matrix \<times> vec) list" where
  "parameters self =
     [(weight (fc1 self), bias (fc1 self)), (weight (fc2 self), bias (fc2 self)),
      (weight (fc3 self), bias (fc3 self)), (weight (fc4 self), bias (fc4 self))]"

text \<open>
  The shapes that \<open>WineQualityNet(input_dim)\<close> builds. Training, \<open>load_state_dict\<close> and the
  mode switches change the values of the tensors and the mode, never a shape.
\<close>

definition Linear_shape :: "nat \<Rightarrow> nat \<Rightarrow> Linear \<Rightarrow> bool" where
  "Linear_shape n_in n_out l =
     (in_features l = n_in \<and> out_features l = n_out \<and> length (weight l) = n_out
      \<and> has_width n_in (weight l) \<and> length (bias l) = n_out)"

definition model_shape :: "nat \<Rightarrow> WineQualityNet \<Rightarrow> bool" where
  "model_shape input_dim self =
     (Linear_shape input_dim 64 (fc1 self) \<and> Linear_shape 64 32 (fc2 self)
      \<and> Linear_shape 32 16 (fc3 self) \<and> Linear_shape 16 1 (fc4 self)
      \<and> dropout_p self = 0.2)"

text \<open>
  The architecture as the specification words it: a list of layers applied from left to
  right. It is compared with \<open>forward\<close> below.
\<close>

datatype layer = Linear_layer Linear | ReLU_layer | Dropout_layer real mask

fun apply_layer :: "bool \<Rightarrow> layer \<Rightarrow> matrix \<Rightarrow> matrix result" where
  "apply_layer training_mode (Linear_layer l) x = Linear_forward l x"
| "apply_layer training_mode ReLU_layer x = Inr (relu x)"
| "apply_layer training_mode (Dropout_layer p keep) x = Inr (Dropout_forward p training_mode keep x)"

fun compose_layers :: "bool \<Rightarrow> layer list \<Rightarrow> matrix \<Rightarrow> matrix result" where
  "compose_layers training_mode [] x = Inr x"
| "compose_layers training_mode (l # ls) x =
     (case apply_layer training_mode l x of
        Inl e \<Rightarrow> Inl e
      | Inr x' \<Rightarrow> compose_layers training_mode ls x')"

definition spec_architecture :: "WineQualityNet \<Rightarrow> mask \<Rightarrow> mask \<Rightarrow> layer list" where
  "spec_architecture self keep1 keep2 =
     [Linear_layer (fc1 self), ReLU_layer, Dropout_layer 0.2 keep1,
      Linear_layer (fc2 self), ReLU_layer, Dropout_layer 0.2 keep2,
      Linear_layer (fc3 self), ReLU_layer,
      Linear_layer (fc4 self)]"

definition spec_architecture_eval :: "WineQualityNet \<Rightarrow> layer list" where
  "spec_architecture_eval self =
     [Linear_layer (fc1 self), ReLU_layer,
      Linear_layer (fc2 self), ReLU_layer,
      Linear_layer (fc3 self), ReLU_layer,
      Linear_layer (fc4 self)]"


section \<open>Batches: \<open>TensorDataset\<close> and \<open>DataLoader\<close>\<close>

text \<open>
  A dataset is the list of its samples, a sample a feature row with its target. A
  \<open>DataLoader(dataset, batch_size=B, shuffle=...)\<close> (PyTorch's, with \<open>drop_last=False\<close>)
  refuses a batch size that is not positive; iterating it yields the samples in chunks of
  \<open>B\<close>, the last one shorter when \<open>B\<close> does not divide the number of samples, after a
  random permutation when \<open>shuffle\<close> is set; \<open>len(dataloader)\<close> is
  \<open>(len(dataset) + B - 1) // B\<close>. The permutation drawn for one iteration is the
  parameter \<open>randperm\<close>.
\<close>

type_synonym sample = "vec \<times> real"

type_synonym batch = "matrix \<times> vec"

record DataLoader =
  dataset :: "sample list"
  batch_size :: nat
  shuffle :: bool

definition DataLoader_init :: "sample list \<Rightarrow> int \<Rightarrow> bool \<Rightarrow> DataLoader result" where
  "DataLoader_init samples B shuffled =
     (if B \<le> 0 then Inl ValueError
      else Inr \<lparr>dataset = samples, batch_size = nat B, shuffle = shuffled\<rparr>)"

function batch_sampler :: "nat \<Rightarrow> 'a list \<Rightarrow> 'a list list" where
  "batch_sampler B xs =
     (if B = 0 \<or> xs = [] then [] else take B xs # batch_sampler B (drop B xs))"
  by pat_completeness auto
termination
  by (relation "measure (\<lambda>(B, xs). length xs)") auto

declare batch_sampler.simps [simp del]

definition len_DataLoader :: "DataLoader \<Rightarrow> nat" where
  "len_DataLoader dl = (length (dataset dl) + batch_size dl - 1) div batch_size dl"

definition collate :: "sample list \<Rightarrow> batch" where
  "collate b = (map fst b, map snd b)"

definition iter_DataLoader :: "(nat \<Rightarrow> nat list) \<Rightarrow> DataLoader \<Rightarrow> batch list" where
  "iter_DataLoader randperm dl =
     map collate
       (batch_sampler (batch_size dl)
          (if shuffle dl
           then safe_indexing (dataset dl) (randperm (length (dataset dl)))
           else dataset dl))"


section \<open>The training loop\<close>

text \<open>
  \<open>model(batch_X).squeeze()\<close> turns the \<open>(B, 1)\<close> output into the \<open>B\<close> predictions, and
  \<open>criterion = nn.MSELoss()\<close> averages the squared differences to the targets. The two
  tensors have the same number of entries here; sizes that do not agree are the error
  branch. (For a batch of one sample the squeezed output is zero-dimensional; \<open>MSELoss\<close>
  broadcasts it against the one target, with a warning about the sizes, and returns the
  same number, the squared difference.)
\<close>

definition squeeze :: "matrix \<Rightarrow> vec" where
  "squeeze out = concat out"

definition MSELoss :: "vec \<Rightarrow> vec \<Rightarrow> real result" where
  "MSELoss outputs target =
     (if length outputs \<noteq> length target then Inl RuntimeError
      else Inr (sum_list (map2 (\<lambda>a t. (a - t)\<^sup>2) outputs target) / real (length target)))"

text \<open>In evaluation mode no dropout draw is made; the masks passed then are not read.\<close>

definition no_draw :: mask where
  "no_draw = (\<lambda>i j. True)"

text \<open>
  \<^verbatim>\<open>
  def validate(model, dataloader, criterion, device):
      model.eval()
      total_loss = 0
      with torch.no_grad():
          for batch_X, batch_y in dataloader:
              batch_X, batch_y = batch_X.to(device), batch_y.to(device)
              outputs = model(batch_X).squeeze()
              loss = criterion(outputs, batch_y)
              total_loss += loss.item()
      return total_loss / len(dataloader)
  \<close>
  The validation phase of \<open>main\<close> in the training script is the same code inline. The
  model object is state: \<open>validate\<close> returns the value or the exception together with
  the model as it is left behind.
\<close>

fun validate_loop :: "WineQualityNet \<Rightarrow> batch list \<Rightarrow> real \<Rightarrow> real result" where
  "validate_loop model [] total_loss = Inr total_loss"
| "validate_loop model ((batch_X, batch_y) # rest) total_loss =
     (case forward model no_draw no_draw batch_X of
        Inl e \<Rightarrow> Inl e
      | Inr out \<Rightarrow>
          (case MSELoss (squeeze out) batch_y of
             Inl e \<Rightarrow> Inl e
           | Inr loss \<Rightarrow> validate_loop model rest (total_loss + loss)))"

definition validate ::
  "(nat \<Rightarrow> nat list) \<Rightarrow> WineQualityNet \<Rightarrow> DataLoader \<Rightarrow> real result \<times> WineQualityNet" where
  "validate randperm model dataloader =
     (let model = eval_mode model
      in (case validate_loop model (iter_DataLoader randperm dataloader) 0 of
            Inl e \<Rightarrow> Inl e
          | Inr total_loss \<Rightarrow>
              if len_DataLoader dataloader = 0 then Inl ZeroDivisionError
              else Inr (total_loss / real (len_DataLoader dataloader)),
          model))"

text \<open>
  \<^verbatim>\<open>
  def train_epoch(model, dataloader, criterion, optimizer, device):
      model.train()
      total_loss = 0
      for batch_X, batch_y in dataloader:
          batch_X, batch_y = batch_X.to(device), batch_y.to(device)
          outputs = model(batch_X).squeeze()
          loss = criterion(outputs, batch_y)
          optimizer.zero_grad()
          loss.backward()
          optimizer.step()
          total_loss += loss.item()
      return total_loss / len(dataloader)
  \<close>
  Back-propagation and the Adam update are PyTorch's. Together they are the parameter
  \<open>step\<close>: from the model, the optimizer state, the dropout draws of this forward pass
  and the batch, it gives the model with its updated parameters and the new optimizer
  state. \<open>draws i\<close> are the two dropout masks drawn for batch number \<open>i\<close>.
\<close>

type_synonym 'o optimizer_step =
  "WineQualityNet \<Rightarrow> 'o \<Rightarrow> mask \<Rightarrow> mask \<Rightarrow> batch \<Rightarrow> WineQualityNet \<times> 'o"

fun train_loop ::
  "'o optimizer_step \<Rightarrow> (nat \<Rightarrow> mask \<times> mask) \<Rightarrow> nat \<Rightarrow> WineQualityNet \<Rightarrow> 'o \<Rightarrow> batch list
     \<Rightarrow> real \<Rightarrow> (real \<times> WineQualityNet \<times> 'o) result" where
  "train_loop step draws i model opt [] total_loss = Inr (total_loss, model, opt)"
| "train_loop step draws i model opt ((batch_X, batch_y) # rest) total_loss =
     (case forward model (fst (draws i)) (snd (draws i)) batch_X of
        Inl e \<Rightarrow> Inl e
      | Inr out \<Rightarrow>
          (case MSELoss (squeeze out) batch_y of
             Inl e \<Rightarrow> Inl e
           | Inr loss \<Rightarrow>
               (case step model opt (fst (draws i)) (snd (draws i)) (batch_X, batch_y) of
                  (model', opt') \<Rightarrow>
                    train_loop step draws (Suc i) model' opt' rest (total_loss + loss))))"

definition train_epoch ::
  "'o optimizer_step \<Rightarrow> (nat \<Rightarrow> mask \<times> mask) \<Rightarrow> (nat \<Rightarrow> nat list) \<Rightarrow> WineQualityNet \<Rightarrow> 'o
     \<Rightarrow> DataLoader \<Rightarrow> (real \<times> WineQualityNet \<times> 'o) result" where
  "train_epoch step draws randperm model opt dataloader =
     (case train_loop step draws 0 (train_mode model) opt (iter_DataLoader randperm dataloader) 0 of
        Inl e \<Rightarrow> Inl e
      | Inr (total_loss, model', opt') \<Rightarrow>
          if len_DataLoader dataloader = 0 then Inl ZeroDivisionError
          else Inr (total_loss / real (len_DataLoader dataloader), model', opt'))"

text \<open>
  One turn of the training loop cell:
  \<^verbatim>\<open>
  train_loss = train_epoch(model, train_loader, criterion, optimizer, device)
  val_loss = validate(model, test_loader, criterion, device)
  train_losses.append(train_loss)
  val_losses.append(val_loss)
  \<close>
\<close>

definition epoch_body ::
  "'o optimizer_step \<Rightarrow> (nat \<Rightarrow> mask \<times> mask) \<Rightarrow> (nat \<Rightarrow> nat list) \<Rightarrow> (nat \<Rightarrow> nat list)
     \<Rightarrow> DataLoader \<Rightarrow> DataLoader \<Rightarrow> WineQualityNet \<times> 'o \<times> real list \<times> real list
     \<Rightarrow> (WineQualityNet \<times> 'o \<times> real list \<times> real list) result" where
  "epoch_body step draws randperm_train randperm_val train_loader val_loader state =
     (case state of
        (model, opt, train_losses, val_losses) \<Rightarrow>
          (case train_epoch step draws randperm_train model opt train_loader of
             Inl e \<Rightarrow> Inl e
           | Inr (train_loss, model1, opt1) \<Rightarrow>
               (case validate randperm_val model1 val_loader of
                  (Inl e, model2) \<Rightarrow> Inl e
                | (Inr val_loss, model2) \<Rightarrow>
                    Inr (model2, opt1, train_losses @ [train_loss], val_losses @ [val_loss]))))"

text \<open>
  The per-batch loss values, named on their own for the statements about the epoch loss:
  the mean squared error of one batch, the list of them over a validation pass, the list
  of them over a training pass (each computed with the parameters the model has when its
  batch is reached), and the mean squared error over all samples of a partition taken as
  one batch.
\<close>

definition batch_mse :: "WineQualityNet \<Rightarrow> mask \<Rightarrow> mask \<Rightarrow> batch \<Rightarrow> real result" where
  "batch_mse model keep1 keep2 b =
     (case forward model keep1 keep2 (fst b) of
        Inl e \<Rightarrow> Inl e
      | Inr out \<Rightarrow> MSELoss (squeeze out) (snd b))"

fun train_batch_losses ::
  "'o optimizer_step \<Rightarrow> (nat \<Rightarrow> mask \<times> mask) \<Rightarrow> nat \<Rightarrow> WineQualityNet \<Rightarrow> 'o \<Rightarrow> batch list
     \<Rightarrow> real result list" where
  "train_batch_losses step draws i model opt [] = []"
| "train_batch_losses step draws i model opt (b # rest) =
     batch_mse model (fst (draws i)) (snd (draws i)) b
       # (case step model opt (fst (draws i)) (snd (draws i)) b of
            (model', opt') \<Rightarrow> train_batch_losses step draws (Suc i) model' opt' rest)"

text \<open>
  What the forward pass in evaluation mode computes for one row, and the squared error
  of one sample under it.
\<close>

definition predict_row :: "WineQualityNet \<Rightarrow> vec \<Rightarrow> vec" where
  "predict_row model x =
     linear_row (fc4 model) (map (\<lambda>v. max 0 v)
       (linear_row (fc3 model) (map (\<lambda>v. max 0 v)
         (linear_row (fc2 model) (map (\<lambda>v. max 0 v)
           (linear_row (fc1 model) x))))))"

definition sample_error :: "WineQualityNet \<Rightarrow> sample \<Rightarrow> real" where
  "sample_error model s = (hd (predict_row model (fst s)) - snd s)\<^sup>2"

definition partition_mse :: "WineQualityNet \<Rightarrow> sample list \<Rightarrow> real result" where
  "partition_mse model samples = batch_mse model no_draw no_draw (collate samples)"


section \<open>Evaluation: \<open>sklearn.metrics\<close>\<close>

text \<open>
  The evaluation cell of the tutorial notebook:
  \<^verbatim>\<open>
  model.eval()
  with torch.no_grad():
      X_test_device = X_test_tensor.to(device)
      predictions = model(X_test_device).squeeze().cpu().numpy()
  mse = mean_squared_error(y_test, predictions)
  rmse = np.sqrt(mse)
  r2 = r2_score(y_test, predictions)
  \<close>
  The training script collects the predictions batch by batch and ends with the same
  three metric calls. \<open>squeeze\<close> removes every axis of length one, so the \<open>(n, 1)\<close>
  output becomes a one-dimensional array of \<open>n\<close> predictions, except for \<open>n = 1\<close>, where
  it becomes a zero-dimensional array; scikit-learn's metrics refuse a zero-dimensional
  array with \<open>TypeError\<close>.

  The metrics are scikit-learn's, called with their default arguments. \<open>r2_score\<close>
  (version 1.0.2, the one the job's conda file pins; later versions do the same under
  their default \<open>force_finite=True\<close>) refuses arrays of different lengths and empty
  arrays; with fewer than two samples it issues an \<open>UndefinedMetricWarning\<close> and returns
  \<open>nan\<close>; otherwise it computes the residual sum of squares (the numerator) and the total
  sum of squares of the targets (the denominator), starts from the score 1, replaces it
  by \<open>1 - numerator / denominator\<close> where both are nonzero, and by 0 where the numerator
  is nonzero and the denominator is zero. \<open>NaN\<close> below is the value returned with the
  warning; \<open>Score r\<close> is an ordinary number returned with no warning.
\<close>

datatype ndarray = Array0 real | Array1 vec

definition squeeze_numpy :: "matrix \<Rightarrow> ndarray" where
  "squeeze_numpy out = (case concat out of [v] \<Rightarrow> Array0 v | vs \<Rightarrow> Array1 vs)"

datatype score = Score real | NaN

definition mean_squared_error :: "vec \<Rightarrow> vec \<Rightarrow> real result" where
  "mean_squared_error y_true y_pred =
     (if length y_true \<noteq> length y_pred \<or> y_true = [] then Inl ValueError
      else Inr (sum_list (map2 (\<lambda>t p. (t - p)\<^sup>2) y_true y_pred) / real (length y_true)))"

definition r2_score :: "vec \<Rightarrow> vec \<Rightarrow> score result" where
  "r2_score y_true y_pred =
     (if length y_true \<noteq> length y_pred \<or> y_true = [] then Inl ValueError
      else if length y_pred < 2 then Inr NaN
      else
        let numerator = sum_list (map2 (\<lambda>t p. (t - p)\<^sup>2) y_true y_pred);
            denominator = sum_list (map (\<lambda>t. (t - np_mean y_true)\<^sup>2) y_true)
        in if denominator \<noteq> 0 \<and> numerator \<noteq> 0
           then Inr (Score (1 - numerator / denominator))
           else if numerator \<noteq> 0 then Inr (Score 0)
           else Inr (Score 1))"

definition test_metrics :: "vec \<Rightarrow> ndarray \<Rightarrow> (real \<times> real \<times> score) result" where
  "test_metrics y_test predictions =
     (case predictions of
        Array0 v \<Rightarrow> Inl TypeError
      | Array1 p \<Rightarrow>
          (case mean_squared_error y_test p of
             Inl e \<Rightarrow> Inl e
           | Inr mse \<Rightarrow>
               (case r2_score y_test p of
                  Inl e \<Rightarrow> Inl e
                | Inr r2 \<Rightarrow> Inr (mse, sqrt mse, r2))))"

definition evaluation_cell ::
  "WineQualityNet \<Rightarrow> matrix \<Rightarrow> vec \<Rightarrow> (real \<times> real \<times> score) result \<times> WineQualityNet" where
  "evaluation_cell model X_test_tensor y_test =
     (let model = eval_mode model
      in (case forward model no_draw no_draw X_test_tensor of
            Inl e \<Rightarrow> Inl e
          | Inr out \<Rightarrow> test_metrics y_test (squeeze_numpy out),
          model))"


section \<open>Persistence: \<open>torch.save\<close> and \<open>torch.load\<close>\<close>

text \<open>
  \<open>model.state_dict()\<close> lists the parameter tensors under their names;
  \<open>load_state_dict\<close> (strict, as by default) raises unless the names are exactly the
  model's and every tensor has the shape of the parameter it replaces, and then copies
  the tensors into the model.
\<close>

datatype tensor = Tensor1 vec | Tensor2 matrix

type_synonym param_dict = "(string \<times> tensor) list"

definition state_dict :: "WineQualityNet \<Rightarrow> param_dict" where
  "state_dict self =
     [(''fc1.weight'', Tensor2 (weight (fc1 self))), (''fc1.bias'', Tensor1 (bias (fc1 self))),
      (''fc2.weight'', Tensor2 (weight (fc2 self))), (''fc2.bias'', Tensor1 (bias (fc2 self))),
      (''fc3.weight'', Tensor2 (weight (fc3 self))), (''fc3.bias'', Tensor1 (bias (fc3 self))),
      (''fc4.weight'', Tensor2 (weight (fc4 self))), (''fc4.bias'', Tensor1 (bias (fc4 self)))]"

definition parameter_names :: "string list" where
  "parameter_names =
     [''fc1.weight'', ''fc1.bias'', ''fc2.weight'', ''fc2.bias'',
      ''fc3.weight'', ''fc3.bias'', ''fc4.weight'', ''fc4.bias'']"

definition load_Linear :: "Linear \<Rightarrow> tensor option \<Rightarrow> tensor option \<Rightarrow> Linear result" where
  "load_Linear l w b =
     (case (w, b) of
        (Some (Tensor2 W), Some (Tensor1 c)) \<Rightarrow>
          if length W = out_features l \<and> has_width (in_features l) W \<and> length c = out_features l
          then Inr (l\<lparr>weight := W, bias := c\<rparr>)
          else Inl RuntimeError
      | _ \<Rightarrow> Inl RuntimeError)"

definition load_state_dict :: "WineQualityNet \<Rightarrow> param_dict \<Rightarrow> WineQualityNet result" where
  "load_state_dict self sd =
     (if set (map fst sd) \<noteq> set parameter_names then Inl RuntimeError
      else
        case load_Linear (fc1 self) (map_of sd ''fc1.weight'') (map_of sd ''fc1.bias'') of
          Inl e \<Rightarrow> Inl e
        | Inr l1 \<Rightarrow>
        (case load_Linear (fc2 self) (map_of sd ''fc2.weight'') (map_of sd ''fc2.bias'') of
          Inl e \<Rightarrow> Inl e
        | Inr l2 \<Rightarrow>
        (case load_Linear (fc3 self) (map_of sd ''fc3.weight'') (map_of sd ''fc3.bias'') of
          Inl e \<Rightarrow> Inl e
        | Inr l3 \<Rightarrow>
        (case load_Linear (fc4 self) (map_of sd ''fc4.weight'') (map_of sd ''fc4.bias'') of
          Inl e \<Rightarrow> Inl e
        | Inr l4 \<Rightarrow> Inr (self\<lparr>fc1 := l1, fc2 := l2, fc3 := l3, fc4 := l4\<rparr>)))))"

text \<open>
  The checkpoint is the dictionary that the save cell writes; its keys
  \<open>model_state_dict\<close>, \<open>optimizer_state_dict\<close>, \<open>scaler\<close>, \<open>input_dim\<close>, \<open>train_losses\<close> and
  \<open>val_losses\<close> are the fields below. The files of the working directory are a map from
  names to what was saved under them; pickling is taken to give back what was saved.

  \<open>torch.load(f, map_location=None, pickle_module=None, *, weights_only=..., mmap=None,
  **pickle_load_args)\<close> (the signature of PyTorch 2; older versions know fewer keywords
  of their own) opens the file and hands every keyword argument it does not know
  itself to the unpickler, which accepts \<open>fix_imports\<close>, \<open>encoding\<close>, \<open>errors\<close> and
  \<open>buffers\<close> and raises \<open>TypeError\<close> on any other keyword. Only the names of the keyword
  arguments of a call are kept.
\<close>

record 'o checkpoint =
  ckpt_model_state_dict :: param_dict
  ckpt_optimizer_state_dict :: 'o
  ckpt_scaler :: StandardScaler
  ckpt_input_dim :: nat
  ckpt_train_losses :: "real list"
  ckpt_val_losses :: "real list"

type_synonym 'o files = "string \<rightharpoonup> 'o checkpoint"

definition normpath :: "string \<Rightarrow> string" where
  "normpath f = (if take 2 f = ''./'' then drop 2 f else f)"

definition torch_save :: "'o checkpoint \<Rightarrow> string \<Rightarrow> 'o files \<Rightarrow> 'o files" where
  "torch_save obj f fs = fs(normpath f \<mapsto> obj)"

definition torch_load_keywords :: "string list" where
  "torch_load_keywords = [''map_location'', ''pickle_module'', ''weights_only'', ''mmap'']"

definition unpickler_keywords :: "string list" where
  "unpickler_keywords = [''fix_imports'', ''encoding'', ''errors'', ''buffers'']"

definition torch_load :: "string \<Rightarrow> string list \<Rightarrow> 'o files \<Rightarrow> 'o checkpoint result" where
  "torch_load f kwargs fs =
     (case fs (normpath f) of
        None \<Rightarrow> Inl FileNotFoundError
      | Some obj \<Rightarrow>
          if list_all (\<lambda>k. k \<in> set (torch_load_keywords @ unpickler_keywords)) kwargs
          then Inr obj
          else Inl TypeError)"

text \<open>
  The save cell:
  \<^verbatim>\<open>
  model_path = 'wine_quality_model.pth'
  torch.save({
      'model_state_dict': model.state_dict(),
      'optimizer_state_dict': optimizer.state_dict(),
      'scaler': scaler,
      'input_dim': X_train.shape[1],
      'train_losses': train_losses,
      'val_losses': val_losses
  }, model_path)
  \<close>
\<close>

definition save_model_cell ::
  "WineQualityNet \<Rightarrow> 'o \<Rightarrow> StandardScaler \<Rightarrow> matrix \<Rightarrow> real list \<Rightarrow> real list \<Rightarrow> 'o files
     \<Rightarrow> 'o files" where
  "save_model_cell model optimizer_state fitted_scaler X_train losses_train losses_val fs =
     torch_save
       \<lparr>ckpt_model_state_dict = state_dict model,
        ckpt_optimizer_state_dict = optimizer_state,
        ckpt_scaler = fitted_scaler,
        ckpt_input_dim = n_features X_train,
        ckpt_train_losses = losses_train,
        ckpt_val_losses = losses_val\<rparr>
       ''wine_quality_model.pth'' fs"

text \<open>
  The load cell:
  \<^verbatim>\<open>
  checkpoint = torch.load('./wine_quality_model.pth', weighta_only=False)
  input_dim = checkpoint['input_dim']
  model = WineQualityNet(input_dim=input_dim)
  model.load_state_dict(checkpoint['model_state_dict'])
  model.eval()
  \<close>
  \<open>load_model_with\<close> is the cell with the keyword arguments of its \<open>torch.load\<close> call as a
  parameter; the cell as written passes the one keyword \<open>weighta_only\<close>.
\<close>

definition load_model_with ::
  "string list \<Rightarrow> (nat \<Rightarrow> nat \<Rightarrow> nat \<Rightarrow> real) \<Rightarrow> (nat \<Rightarrow> nat \<Rightarrow> real) \<Rightarrow> 'o files
     \<Rightarrow> WineQualityNet result" where
  "load_model_with kwargs w_init b_init fs =
     (case torch_load ''./wine_quality_model.pth'' kwargs fs of
        Inl e \<Rightarrow> Inl e
      | Inr checkpoint \<Rightarrow>
          (case load_state_dict (WineQualityNet_init w_init b_init (ckpt_input_dim checkpoint))
                  (ckpt_model_state_dict checkpoint) of
             Inl e \<Rightarrow> Inl e
           | Inr model \<Rightarrow> Inr (eval_mode model)))"

definition load_model_cell ::
  "(nat \<Rightarrow> nat \<Rightarrow> nat \<Rightarrow> real) \<Rightarrow> (nat \<Rightarrow> nat \<Rightarrow> real) \<Rightarrow> 'o files \<Rightarrow> WineQualityNet result" where
  "load_model_cell w_init b_init fs = load_model_with [''weighta_only''] w_init b_init fs"


section \<open>Properties of the splitting step\<close>

lemma vss_1599: "validate_shuffle_split 1599 0.2 = Inr (1279, 320)"
  by (simp add: validate_shuffle_split_def Let_def)

lemma vss_1279: "validate_shuffle_split 1279 0.2 = Inr (1023, 256)"
  by (simp add: validate_shuffle_split_def Let_def)

lemma validate_shuffle_split_sizes:
  assumes "validate_shuffle_split n ts = Inr (n_train, n_test)"
  shows "n_train + n_test = n" and "0 < n_train" and "0 < n_test"
proof -
  from assms have ts: "0 < ts" "ts < 1"
    and nt: "n_test = nat \<lceil>ts * real n\<rceil>" and ntr: "n_train = n - n_test" and pos: "n_train \<noteq> 0"
    by (auto simp: validate_shuffle_split_def Let_def split: if_splits)
  have "ts * real n \<le> real n" using ts by (simp add: mult_left_le_one_le)
  then have "\<lceil>ts * real n\<rceil> \<le> int n" by (simp add: ceiling_le_iff)
  then have le: "n_test \<le> n" unfolding nt by linarith
  show "n_train + n_test = n" using le ntr by simp
  show "0 < n_train" using pos by simp
  have "0 < n" using pos ntr by simp
  then have "0 < ts * real n" using ts by simp
  then have "0 < \<lceil>ts * real n\<rceil>" by (simp add: ceiling_less_iff)
  then show "0 < n_test" using nt by simp
qed

lemma permutation_length: "mset p = mset [0..<n] \<Longrightarrow> length p = n"
  by (metis length_upt mset_eq_length minus_nat.diff_0)

lemma permutation_set: "mset p = mset [0..<n] \<Longrightarrow> set p = {..<n}"
  by (metis atLeast_upt mset_eq_setD)

lemma permutation_distinct: "mset p = mset [0..<n] \<Longrightarrow> distinct p"
  by (metis distinct_upt mset_eq_imp_distinct_iff)

lemma safe_indexing_compose:
  "set ind \<subseteq> {..<length js} \<Longrightarrow>
     safe_indexing (safe_indexing X js) ind = safe_indexing X (safe_indexing js ind)"
  by (auto simp: safe_indexing_def)

lemma safe_indexing_mset:
  "mset (safe_indexing X ind) = image_mset ((!) X) (mset ind)"
  by (simp add: safe_indexing_def)

lemma safe_indexing_all: "mset ind = mset [0..<length X] \<Longrightarrow> mset (safe_indexing X ind) = mset X"
proof -
  assume "mset ind = mset [0..<length X]"
  then have "mset (safe_indexing X ind) = mset (map ((!) X) [0..<length X])"
    by (simp add: safe_indexing_mset)
  then show ?thesis by (simp add: map_nth)
qed

lemma train_test_split_indices:
  assumes p: "mset (permutation (length X)) = mset [0..<length X]"
    and s: "train_test_split permutation X y ts = Inr (Xtr, Xte, ytr, yte)"
  shows "\<exists>itr ite. Xtr = safe_indexing X itr \<and> Xte = safe_indexing X ite
           \<and> ytr = safe_indexing y itr \<and> yte = safe_indexing y ite
           \<and> mset itr + mset ite = mset [0..<length X] \<and> length X = length y"
proof -
  from s have len: "length X = length y"
    by (auto simp: train_test_split_def split: if_splits)
  from s len obtain n_train n_test where
    v: "validate_shuffle_split (length X) ts = Inr (n_train, n_test)"
    by (auto simp: train_test_split_def split: if_splits sum.splits)
  let ?p = "permutation (length X)"
  let ?itr = "take n_train (drop n_test ?p)" and ?ite = "take n_test ?p"
  from s len v have r: "Xtr = safe_indexing X ?itr" "Xte = safe_indexing X ?ite"
    "ytr = safe_indexing y ?itr" "yte = safe_indexing y ?ite"
    by (simp_all add: train_test_split_def Let_def)
  have sz: "n_train + n_test = length X" using validate_shuffle_split_sizes(1)[OF v] .
  have "length ?p = length X" using p by (rule permutation_length)
  then have "?itr = drop n_test ?p" using sz by simp
  then have "mset ?itr + mset ?ite = mset ?p"
    by (metis add.commute append_take_drop_id mset_append)
  with p r len show ?thesis by metis
qed

lemma main_split_indices:
  assumes perm: "\<And>n. mset (permutation n) = mset [0..<n]"
    and s: "main_split permutation ratio X y = Inr ((Xtr, ytr), (Xva, yva), (Xte, yte))"
  shows "\<exists>itr iva ite. Xtr = safe_indexing X itr \<and> Xva = safe_indexing X iva \<and> Xte = safe_indexing X ite
           \<and> ytr = safe_indexing y itr \<and> yva = safe_indexing y iva \<and> yte = safe_indexing y ite
           \<and> mset itr + mset iva + mset ite = mset [0..<length X] \<and> length X = length y"
proof -
  from s obtain X1 y1 where
    s1: "train_test_split permutation X y ratio = Inr (X1, Xte, y1, yte)"
    and s2: "train_test_split permutation X1 y1 0.2 = Inr (Xtr, Xva, ytr, yva)"
    by (auto simp: main_split_def split: sum.splits)
  from train_test_split_indices[OF perm s1] obtain i1 ite where
    a: "X1 = safe_indexing X i1" "Xte = safe_indexing X ite" "y1 = safe_indexing y i1"
       "yte = safe_indexing y ite" "mset i1 + mset ite = mset [0..<length X]" "length X = length y"
    by blast
  from train_test_split_indices[OF perm s2] obtain jtr jva where
    b: "Xtr = safe_indexing X1 jtr" "Xva = safe_indexing X1 jva" "ytr = safe_indexing y1 jtr"
       "yva = safe_indexing y1 jva" "mset jtr + mset jva = mset [0..<length X1]"
    by blast
  have l1: "length X1 = length i1" using a(1) by (simp add: safe_indexing_def)
  have "set jtr \<subseteq> set_mset (mset jtr + mset jva)" "set jva \<subseteq> set_mset (mset jtr + mset jva)" by auto
  then have sub: "set jtr \<subseteq> {..<length i1}" "set jva \<subseteq> {..<length i1}"
    unfolding b(5) l1 by auto
  let ?itr = "safe_indexing i1 jtr" and ?iva = "safe_indexing i1 jva"
  have c: "Xtr = safe_indexing X ?itr" "Xva = safe_indexing X ?iva"
      "ytr = safe_indexing y ?itr" "yva = safe_indexing y ?iva"
    using a b sub by (simp_all add: safe_indexing_compose)
  have "mset ?itr + mset ?iva = image_mset ((!) i1) (mset jtr + mset jva)"
    by (simp add: safe_indexing_mset)
  also have "\<dots> = mset (safe_indexing i1 [0..<length i1])"
    unfolding b(5) l1 by (simp add: safe_indexing_mset)
  also have "\<dots> = mset i1" by (simp add: safe_indexing_all)
  finally have "mset ?itr + mset ?iva + mset ite = mset [0..<length X]" using a(5) by simp
  with c a show ?thesis by blast
qed

text \<open>
  Claim C3. Whenever the two splits of the training script produce partitions, the
  train, validation and test partitions are selections of the table's rows by three
  index lists that are pairwise disjoint, free of repetitions and cover every row index,
  so that no row goes to two partitions; the row counts add up to the table's, and the
  three partitions hold the table's rows with their multiplicities. The seeded generator
  is assumed to return permutations, as NumPy's does.
\<close>

theorem partitions_disjoint_and_exhaustive:
  assumes perm: "\<And>n. mset (permutation n) = mset [0..<n]"
    and s: "main_split permutation ratio X y = Inr ((Xtr, ytr), (Xva, yva), (Xte, yte))"
  shows "length Xtr + length Xva + length Xte = length X
       \<and> mset Xtr + mset Xva + mset Xte = mset X
       \<and> (\<exists>itr iva ite.
             Xtr = safe_indexing X itr \<and> Xva = safe_indexing X iva \<and> Xte = safe_indexing X ite
           \<and> set itr \<inter> set iva = {} \<and> set itr \<inter> set ite = {} \<and> set iva \<inter> set ite = {}
           \<and> distinct itr \<and> distinct iva \<and> distinct ite
           \<and> set itr \<union> set iva \<union> set ite = {..<length X})"
proof -
  from main_split_indices[OF perm s] obtain itr iva ite where
    r: "Xtr = safe_indexing X itr" "Xva = safe_indexing X iva" "Xte = safe_indexing X ite"
    and m: "mset itr + mset iva + mset ite = mset [0..<length X]"
    by blast
  from m have m': "mset (itr @ iva @ ite) = mset [0..<length X]" by (simp add: ac_simps)
  have d: "distinct (itr @ iva @ ite)" using m' by (rule permutation_distinct)
  have st: "set (itr @ iva @ ite) = {..<length X}" using m' by (rule permutation_set)
  have "mset Xtr + mset Xva + mset Xte = mset (safe_indexing X (itr @ iva @ ite))"
    unfolding r by (simp add: safe_indexing_def)
  also have "\<dots> = mset X" using m' by (rule safe_indexing_all)
  finally have ms: "mset Xtr + mset Xva + mset Xte = mset X" .
  then have "size (mset Xtr + mset Xva + mset Xte) = size (mset X)" by simp
  then have ln: "length Xtr + length Xva + length Xte = length X" by simp
  from d st have "set itr \<inter> set iva = {} \<and> set itr \<inter> set ite = {} \<and> set iva \<inter> set ite = {}
           \<and> distinct itr \<and> distinct iva \<and> distinct ite
           \<and> set itr \<union> set iva \<union> set ite = {..<length X}"
    by auto
  with r ms ln show ?thesis by blast
qed

theorem partitions_disjoint_and_exhaustive_witness:
  "main_split (\<lambda>n. rev [0..<n]) 0.2 [10, 20, 30, 40, 50::nat] [1, 2, 3, 4, 5::nat]
     = Inr (([20, 30, 40], [2, 3, 4]), ([10], [1]), ([50], [5]))
   \<and> length [20, 30, 40::nat] + length [10::nat] + length [50::nat] = length [10, 20, 30, 40, 50::nat]
   \<and> mset [20, 30, 40::nat] + mset [10] + mset [50] = mset [10, 20, 30, 40, 50]
   \<and> (\<exists>itr iva ite.
         [20, 30, 40::nat] = safe_indexing [10, 20, 30, 40, 50] itr
       \<and> [10::nat] = safe_indexing [10, 20, 30, 40, 50] iva
       \<and> [50::nat] = safe_indexing [10, 20, 30, 40, 50] ite
       \<and> set itr \<inter> set iva = {} \<and> set itr \<inter> set ite = {} \<and> set iva \<inter> set ite = {}
       \<and> distinct itr \<and> distinct iva \<and> distinct ite
       \<and> set itr \<union> set iva \<union> set ite = {..<length [10, 20, 30, 40, 50::nat]})"
proof -
  have perm: "\<And>n. mset (rev [0..<n]) = mset [0..<n]" by simp
  have s: "main_split (\<lambda>n. rev [0..<n]) 0.2 [10, 20, 30, 40, 50::nat] [1, 2, 3, 4, 5::nat]
     = Inr (([20, 30, 40], [2, 3, 4]), ([10], [1]), ([50], [5]))"
    by code_simp
  from partitions_disjoint_and_exhaustive[of "\<lambda>n. rev [0..<n]", OF perm s] s
  show ?thesis by blast
qed

text \<open>
  Claim C6. A table of 1599 rows, split with test fraction 0.2 and then split again with
  fraction 0.2, gives 1023 training rows, 256 validation rows and 320 test rows: the
  held-out part of each split is the ceiling of the fraction times the row count
  (320 of 1599, then 256 of 1279).
\<close>

theorem split_1599_rows:
  assumes perm: "\<And>n. mset (permutation n) = mset [0..<n]"
    and lx: "length X = 1599" and ly: "length y = 1599"
  shows "validate_shuffle_split 1599 0.2 = Inr (1279, 320)
       \<and> validate_shuffle_split 1279 0.2 = Inr (1023, 256)
       \<and> (\<exists>Xtr ytr Xva yva Xte yte.
             main_split permutation 0.2 X y = Inr ((Xtr, ytr), (Xva, yva), (Xte, yte))
           \<and> length Xtr = 1023 \<and> length Xva = 256 \<and> length Xte = 320
           \<and> length ytr = 1023 \<and> length yva = 256 \<and> length yte = 320)"
proof -
  have p1: "length (permutation 1599) = 1599" using perm by (rule permutation_length)
  have p2: "length (permutation 1279) = 1279" using perm by (rule permutation_length)
  let ?i1 = "take 1279 (drop 320 (permutation 1599))"
  have s1: "train_test_split permutation X y 0.2
      = Inr (safe_indexing X ?i1, safe_indexing X (take 320 (permutation 1599)),
             safe_indexing y ?i1, safe_indexing y (take 320 (permutation 1599)))"
    unfolding train_test_split_def lx ly vss_1599 by (simp add: Let_def)
  have l1: "length (safe_indexing X ?i1) = 1279" "length (safe_indexing y ?i1) = 1279"
    by (simp_all add: safe_indexing_def p1)
  let ?X1 = "safe_indexing X ?i1" and ?y1 = "safe_indexing y ?i1"
  let ?j = "take 1023 (drop 256 (permutation 1279))"
  have s2: "train_test_split permutation ?X1 ?y1 0.2
      = Inr (safe_indexing ?X1 ?j, safe_indexing ?X1 (take 256 (permutation 1279)),
             safe_indexing ?y1 ?j, safe_indexing ?y1 (take 256 (permutation 1279)))"
    unfolding train_test_split_def l1 vss_1279 by (simp add: Let_def)
  have "main_split permutation 0.2 X y
      = Inr ((safe_indexing ?X1 ?j, safe_indexing ?y1 ?j),
             (safe_indexing ?X1 (take 256 (permutation 1279)), safe_indexing ?y1 (take 256 (permutation 1279))),
             (safe_indexing X (take 320 (permutation 1599)), safe_indexing y (take 320 (permutation 1599))))"
    unfolding main_split_def s1 sum.case prod.case s2 by simp
  moreover have "length (safe_indexing ?X1 ?j) = 1023" "length (safe_indexing ?y1 ?j) = 1023"
    "length (safe_indexing ?X1 (take 256 (permutation 1279))) = 256"
    "length (safe_indexing ?y1 (take 256 (permutation 1279))) = 256"
    "length (safe_indexing X (take 320 (permutation 1599))) = 320"
    "length (safe_indexing y (take 320 (permutation 1599))) = 320"
    by (simp_all add: safe_indexing_def p1 p2)
  ultimately show ?thesis using vss_1599 vss_1279 by blast
qed

theorem split_1599_rows_witness:
  "\<exists>Xtr ytr Xva yva Xte yte.
      main_split (\<lambda>n. rev [0..<n]) 0.2 (replicate 1599 [0::real]) (replicate 1599 (5::real))
        = Inr ((Xtr, ytr), (Xva, yva), (Xte, yte))
    \<and> length Xtr = 1023 \<and> length Xva = 256 \<and> length Xte = 320
    \<and> length ytr = 1023 \<and> length yva = 256 \<and> length yte = 320"
proof -
  have perm: "\<And>n. mset (rev [0..<n]) = mset [0..<n]" by simp
  have lx: "length (replicate 1599 [0::real]) = 1599" by simp
  have ly: "length (replicate 1599 (5::real)) = 1599" by simp
  from split_1599_rows[of "\<lambda>n. rev [0..<n]", OF perm lx ly] show ?thesis by blast
qed


section \<open>The splitting step returns\<close>

lemma ceiling_fifth: "\<lceil>0.2 * real n\<rceil> = - (- int n div 5)"
proof -
  have "0.2 * real n = of_int (int n) / of_int 5" by simp
  then show ?thesis by (simp only: ceiling_divide_eq_div)
qed

lemma validate_shuffle_split_fifth:
  assumes "2 \<le> n"
  shows "\<exists>n_train n_test. validate_shuffle_split n 0.2 = Inr (n_train, n_test)
           \<and> n_train + n_test = n \<and> (3 \<le> n \<longrightarrow> 2 \<le> n_train)"
proof -
  let ?t = "nat \<lceil>0.2 * real n\<rceil>"
  have t: "?t < n" "3 \<le> n \<longrightarrow> 2 \<le> n - ?t"
    unfolding ceiling_fifth using assms by linarith+
  then have "validate_shuffle_split n 0.2 = Inr (n - ?t, ?t)"
    by (simp add: validate_shuffle_split_def Let_def)
  with t show ?thesis by auto
qed

text \<open>
  The splitting step does produce partitions: with the test fraction 0.2 the two splits
  of the training script succeed on every table of at least three rows.
\<close>

lemma main_split_returns:
  assumes perm: "\<And>n. mset (permutation n) = mset [0..<n]"
    and l: "length X = length y" and n: "3 \<le> length X"
  shows "\<exists>parts. main_split permutation 0.2 X y = Inr parts"
proof -
  from validate_shuffle_split_fifth[of "length X"] n obtain n_train n_test where
    v: "validate_shuffle_split (length X) 0.2 = Inr (n_train, n_test)"
    and sz: "n_train + n_test = length X" "2 \<le> n_train"
    by auto
  let ?i = "take n_train (drop n_test (permutation (length X)))"
  have s1: "train_test_split permutation X y 0.2
      = Inr (safe_indexing X ?i, safe_indexing X (take n_test (permutation (length X))),
             safe_indexing y ?i, safe_indexing y (take n_test (permutation (length X))))"
    unfolding train_test_split_def v using l by (simp add: Let_def)
  have "length (permutation (length X)) = length X" using perm by (rule permutation_length)
  then have li: "length ?i = n_train" using sz(1) by simp
  then have l1: "length (safe_indexing X ?i) = n_train" "length (safe_indexing y ?i) = n_train"
    by (simp_all add: safe_indexing_def)
  from validate_shuffle_split_fifth[of n_train] sz(2) obtain m_train m_val where
    v2: "validate_shuffle_split n_train 0.2 = Inr (m_train, m_val)"
    by auto
  have "\<exists>r. train_test_split permutation (safe_indexing X ?i) (safe_indexing y ?i) 0.2 = Inr r"
    unfolding train_test_split_def l1 v2 by (simp add: Let_def)
  then show ?thesis
    unfolding main_split_def s1 by (auto split: sum.splits prod.splits)
qed

lemma train_test_split_sizes:
  assumes p: "mset (permutation (length X)) = mset [0..<length X]"
    and s: "train_test_split permutation X y ts = Inr (Xtr, Xte, ytr, yte)"
  shows "length Xte = nat \<lceil>ts * real (length X)\<rceil> \<and> Xtr \<noteq> [] \<and> Xte \<noteq> []"
proof -
  from s have len: "length X = length y"
    by (auto simp: train_test_split_def split: if_splits)
  from s len obtain n_train n_test where
    v: "validate_shuffle_split (length X) ts = Inr (n_train, n_test)"
    by (auto simp: train_test_split_def split: if_splits sum.splits)
  from v have nt: "n_test = nat \<lceil>ts * real (length X)\<rceil>"
    by (auto simp: validate_shuffle_split_def Let_def split: if_splits)
  let ?p = "permutation (length X)"
  from s len v have r: "Xtr = safe_indexing X (take n_train (drop n_test ?p))"
    "Xte = safe_indexing X (take n_test ?p)"
    by (simp_all add: train_test_split_def Let_def)
  note sz = validate_shuffle_split_sizes[OF v]
  have lp: "length ?p = length X" using p by (rule permutation_length)
  have "length Xte = n_test" "length Xtr = n_train"
    unfolding r using sz(1) lp by (simp_all add: safe_indexing_def)
  with sz(2,3) nt show ?thesis by auto
qed

lemma main_split_sizes:
  assumes perm: "\<And>n. mset (permutation n) = mset [0..<n]"
    and s: "main_split permutation ratio X y = Inr ((Xtr, ytr), (Xva, yva), (Xte, yte))"
  shows "length Xte = nat \<lceil>ratio * real (length X)\<rceil> \<and> Xtr \<noteq> [] \<and> Xva \<noteq> [] \<and> Xte \<noteq> []"
proof -
  from s obtain X1 y1 where
    s1: "train_test_split permutation X y ratio = Inr (X1, Xte, y1, yte)"
    and s2: "train_test_split permutation X1 y1 0.2 = Inr (Xtr, Xva, ytr, yva)"
    by (auto simp: main_split_def split: sum.splits)
  from train_test_split_sizes[OF perm s1] train_test_split_sizes[OF perm s2]
  show ?thesis by simp
qed


section \<open>Properties of the model\<close>

lemma has_width_iff: "has_width d X \<longleftrightarrow> (\<forall>r\<in>set X. length r = d)"
  by (simp add: has_width_def list_all_iff)

lemma nn_Linear_shape: "Linear_shape n_in n_out (nn_Linear w_init b_init n_in n_out)"
  by (simp add: Linear_shape_def nn_Linear_def has_width_iff)

lemma WineQualityNet_init_shape: "model_shape input_dim (WineQualityNet_init w_init b_init input_dim)"
  by (simp add: model_shape_def WineQualityNet_init_def nn_Linear_shape)

lemma Linear_forward_shape:
  assumes "Linear_shape n_in n_out l" and "has_width n_in x"
  shows "Linear_forward l x = Inr (map (linear_row l) x)"
    and "length (map (linear_row l) x) = length x"
    and "has_width n_out (map (linear_row l) x)"
  using assms by (auto simp: Linear_forward_def Linear_shape_def has_width_iff linear_row_def)

lemma relu_shape: "length (relu x) = length x" "has_width d x \<Longrightarrow> has_width d (relu x)"
  by (auto simp: relu_def has_width_iff)

lemma Dropout_forward_shape:
  "length (Dropout_forward p t keep x) = length x"
  "has_width d x \<Longrightarrow> has_width d (Dropout_forward p t keep x)"
  by (auto simp: Dropout_forward_def has_width_iff)

lemma forward_shape:
  assumes m: "model_shape input_dim self" and x: "has_width input_dim x"
  shows "\<exists>out. forward self keep1 keep2 x = Inr out \<and> length out = length x \<and> has_width 1 out"
proof -
  from m have s: "Linear_shape input_dim 64 (fc1 self)" "Linear_shape 64 32 (fc2 self)"
    "Linear_shape 32 16 (fc3 self)" "Linear_shape 16 1 (fc4 self)"
    by (simp_all add: model_shape_def)
  let ?a1 = "map (linear_row (fc1 self)) x"
  let ?x1 = "Dropout_forward (dropout_p self) (training self) keep1 (relu ?a1)"
  let ?a2 = "map (linear_row (fc2 self)) ?x1"
  let ?x2 = "Dropout_forward (dropout_p self) (training self) keep2 (relu ?a2)"
  let ?a3 = "map (linear_row (fc3 self)) ?x2"
  let ?a4 = "map (linear_row (fc4 self)) (relu ?a3)"
  have 1: "Linear_forward (fc1 self) x = Inr ?a1" "has_width 64 ?a1"
    using Linear_forward_shape[OF s(1) x] by simp_all
  have w1: "has_width 64 ?x1" using 1(2) by (simp add: relu_shape Dropout_forward_shape)
  have 2: "Linear_forward (fc2 self) ?x1 = Inr ?a2" "has_width 32 ?a2"
    using Linear_forward_shape[OF s(2) w1] by simp_all
  have w2: "has_width 32 ?x2" using 2(2) by (simp add: relu_shape Dropout_forward_shape)
  have 3: "Linear_forward (fc3 self) ?x2 = Inr ?a3" "has_width 16 ?a3"
    using Linear_forward_shape[OF s(3) w2] by simp_all
  have w3: "has_width 16 (relu ?a3)" using 3(2) by (simp add: relu_shape)
  have 4: "Linear_forward (fc4 self) (relu ?a3) = Inr ?a4" "has_width 1 ?a4"
    using Linear_forward_shape[OF s(4) w3] by simp_all
  have "forward self keep1 keep2 x = Inr ?a4"
    unfolding forward_def 1(1) sum.case Let_def 2(1) 3(1) 4(1) ..
  moreover have "length ?a4 = length x"
    by (simp add: relu_shape Dropout_forward_shape)
  ultimately show ?thesis using 4(2) by blast
qed

lemma forward_compose:
  assumes p: "dropout_p self = 0.2"
  shows "forward self keep1 keep2 x
           = compose_layers (training self) (spec_architecture self keep1 keep2) x"
  unfolding forward_def spec_architecture_def p[symmetric]
  by (simp add: Let_def split: sum.splits)

lemma forward_compose_eval:
  "\<not> training self \<Longrightarrow>
   forward self keep1 keep2 x = compose_layers False (spec_architecture_eval self) x"
  by (simp add: forward_def spec_architecture_eval_def Let_def Dropout_forward_def split: sum.splits)

lemma Dropout_forward_eval: "Dropout_forward p False keep a = a"
  by (simp add: Dropout_forward_def)

lemma Dropout_forward_train:
  "i < length a \<Longrightarrow> j < length (a ! i) \<Longrightarrow>
   Dropout_forward p True keep a ! i ! j = (if keep i j then a ! i ! j / (1 - p) else 0)"
  by (simp add: Dropout_forward_def)

text \<open>
  Claim C2. For a model with the constructor's shapes, the forward pass is the composition
  Linear(input_dim, 64), ReLU, Dropout(0.2), Linear(64, 32), ReLU, Dropout(0.2),
  Linear(32, 16), ReLU, Linear(16, 1) in this order, the last layer being linear with no
  activation after it. In evaluation mode every dropout is the identity, so the forward
  pass is the same composition without the two dropouts; in training mode a dropout
  replaces exactly the entries that are not kept by zero (and divides the kept ones by
  \<open>1 - 0.2\<close>).
\<close>

theorem forward_is_layer_composition:
  assumes m: "model_shape input_dim self"
  shows "forward self keep1 keep2 x
           = compose_layers (training self) (spec_architecture self keep1 keep2) x
       \<and> in_features (fc1 self) = input_dim \<and> out_features (fc1 self) = 64
       \<and> in_features (fc2 self) = 64 \<and> out_features (fc2 self) = 32
       \<and> in_features (fc3 self) = 32 \<and> out_features (fc3 self) = 16
       \<and> in_features (fc4 self) = 16 \<and> out_features (fc4 self) = 1
       \<and> last (spec_architecture self keep1 keep2) = Linear_layer (fc4 self)
       \<and> forward (eval_mode self) keep1 keep2 x
           = compose_layers False (spec_architecture_eval self) x
       \<and> forward (eval_mode self) keep1 keep2 x
           = compose_layers False (spec_architecture self keep1 keep2) x
       \<and> apply_layer False (Dropout_layer 0.2 keep) a = Inr a
       \<and> (\<forall>i<length a. \<forall>j<length (a ! i).
             Dropout_forward 0.2 True keep a ! i ! j = (if keep i j then a ! i ! j / (1 - 0.2) else 0))"
proof -
  from m have p: "dropout_p self = 0.2" by (simp add: model_shape_def)
  have e: "\<not> training (eval_mode self)" "dropout_p (eval_mode self) = 0.2"
    using p by (simp_all add: eval_mode_def)
  have f: "fc1 (eval_mode self) = fc1 self" "fc2 (eval_mode self) = fc2 self"
    "fc3 (eval_mode self) = fc3 self" "fc4 (eval_mode self) = fc4 self"
    by (simp_all add: eval_mode_def)
  have 1: "forward self keep1 keep2 x
           = compose_layers (training self) (spec_architecture self keep1 keep2) x"
    using p by (rule forward_compose)
  have 2: "forward (eval_mode self) keep1 keep2 x
           = compose_layers False (spec_architecture_eval self) x"
    using forward_compose_eval[OF e(1), of keep1 keep2 x]
    by (simp add: spec_architecture_eval_def f)
  have 3: "forward (eval_mode self) keep1 keep2 x
           = compose_layers False (spec_architecture self keep1 keep2) x"
    using forward_compose[OF e(2), of keep1 keep2 x] e(1)
    by (simp add: spec_architecture_def f)
  have 4: "apply_layer False (Dropout_layer 0.2 keep) a = Inr a"
    by (simp add: Dropout_forward_eval)
  have 5: "\<forall>i<length a. \<forall>j<length (a ! i).
             Dropout_forward 0.2 True keep a ! i ! j = (if keep i j then a ! i ! j / (1 - 0.2) else 0)"
    using Dropout_forward_train[of _ a _ "0.2" keep] by blast
  have 6: "last (spec_architecture self keep1 keep2) = Linear_layer (fc4 self)"
    by (simp add: spec_architecture_def)
  from m have 7: "in_features (fc1 self) = input_dim \<and> out_features (fc1 self) = 64
       \<and> in_features (fc2 self) = 64 \<and> out_features (fc2 self) = 32
       \<and> in_features (fc3 self) = 32 \<and> out_features (fc3 self) = 16
       \<and> in_features (fc4 self) = 16 \<and> out_features (fc4 self) = 1"
    by (simp add: model_shape_def Linear_shape_def)
  from 1 2 3 4 5 6 7 show ?thesis by blast
qed

theorem forward_is_layer_composition_witness:
  "forward (WineQualityNet_init (\<lambda>l i j. 1) (\<lambda>l i. 0) 2) (\<lambda>i j. True) (\<lambda>i j. False) [[1, 2]]
     = compose_layers True
         (spec_architecture (WineQualityNet_init (\<lambda>l i j. 1) (\<lambda>l i. 0) 2) (\<lambda>i j. True) (\<lambda>i j. False))
         [[1, 2]]
   \<and> forward (eval_mode (WineQualityNet_init (\<lambda>l i j. 1) (\<lambda>l i. 0) 2)) (\<lambda>i j. True) (\<lambda>i j. False) [[1, 2]]
     = compose_layers False (spec_architecture_eval (WineQualityNet_init (\<lambda>l i j. 1) (\<lambda>l i. 0) 2)) [[1, 2]]
   \<and> in_features (fc1 (WineQualityNet_init (\<lambda>l i j. 1) (\<lambda>l i. 0) 2)) = 2
   \<and> out_features (fc4 (WineQualityNet_init (\<lambda>l i j. 1) (\<lambda>l i. 0) 2)) = 1"
proof -
  have m: "model_shape 2 (WineQualityNet_init (\<lambda>l i j. 1) (\<lambda>l i. 0) 2)"
    by (rule WineQualityNet_init_shape)
  have t: "training (WineQualityNet_init (\<lambda>l i j. 1) (\<lambda>l i. 0) 2)"
    by (simp add: WineQualityNet_init_def)
  from forward_is_layer_composition[OF m, of "\<lambda>i j. True" "\<lambda>i j. False" "[[1, 2]]"] t
  show ?thesis by simp
qed

text \<open>
  Claim C8. For a model with the shapes built by \<open>WineQualityNet(input_dim)\<close> and an input
  of shape \<open>(batch_size, input_dim)\<close> with at least one row, the forward pass returns
  (it does not raise) a tensor of shape \<open>(batch_size, 1)\<close>, in either mode and whatever
  the dropout draws.
\<close>

theorem forward_output_shape:
  assumes "model_shape input_dim self" and "has_width input_dim x" and "1 \<le> length x"
  shows "\<exists>out. forward self keep1 keep2 x = Inr out \<and> length out = length x \<and> has_width 1 out"
  using assms(1,2) by (rule forward_shape)

theorem forward_output_shape_witness:
  "\<exists>out. forward (WineQualityNet_init (\<lambda>l i j. 1) (\<lambda>l i. 0) 3) (\<lambda>i j. True) (\<lambda>i j. False)
            [[1, 2, 3], [4, 5, 6]] = Inr out
        \<and> length out = length [[1, 2, 3], [4, 5, 6 :: real]] \<and> has_width 1 out"
proof -
  have m: "model_shape 3 (WineQualityNet_init (\<lambda>l i j. 1) (\<lambda>l i. 0) 3)"
    by (rule WineQualityNet_init_shape)
  have x: "has_width 3 [[1, 2, 3], [4, 5, 6]]" by (simp add: has_width_def)
  have l: "1 \<le> length [[1, 2, 3], [4, 5, 6 :: real]]" by simp
  from forward_output_shape[OF m x l] show ?thesis .
qed


section \<open>Properties of the standardizer\<close>

lemma sum_list_centred_scaled:
  "sum_list (map (\<lambda>x. (x - m) / s) v) = (sum_list v - real (length v) * m) / (s::real)"
  by (induction v) (simp_all add: diff_divide_distrib add_divide_distrib algebra_simps)

lemma np_mean_standardized:
  assumes "v \<noteq> []"
  shows "np_mean (map (\<lambda>x. (x - np_mean v) / s) v) = 0"
proof -
  have "real (length v) * np_mean v = sum_list v"
    using assms by (simp add: np_mean_def)
  then show ?thesis
    by (simp add: np_mean_def sum_list_centred_scaled)
qed

lemma sum_list_divide_const:
  "sum_list (map (\<lambda>x. f x / c) v) = sum_list (map f v) / (c::real)"
  by (induction v) (simp_all add: add_divide_distrib)

lemma np_var_nonneg: "0 \<le> np_var v"
  by (auto simp: np_var_def np_mean_def intro!: divide_nonneg_nonneg sum_list_nonneg)

lemma np_var_scaled:
  assumes "v \<noteq> []"
  shows "np_var (map (\<lambda>x. (x - np_mean v) / s) v) = np_var v / s\<^sup>2"
proof -
  let ?z = "map (\<lambda>x. (x - np_mean v) / s) v"
  have z: "np_mean ?z = 0" using assms(1) by (rule np_mean_standardized)
  have "np_var ?z = sum_list (map (\<lambda>x. (x - np_mean v)\<^sup>2 / s\<^sup>2) v) / real (length v)"
    unfolding np_var_def[of ?z] z by (simp add: np_mean_def comp_def power_divide)
  also have "\<dots> = sum_list (map (\<lambda>x. (x - np_mean v)\<^sup>2) v) / s\<^sup>2 / real (length v)"
    by (simp add: sum_list_divide_const)
  also have "\<dots> = np_var v / s\<^sup>2"
    by (simp add: np_var_def np_mean_def)
  finally show ?thesis .
qed

lemma zero_variance_is_constant: "is_constant_feature 0 m n"
  by (simp add: is_constant_feature_def)

lemma np_std_scaled:
  assumes "v \<noteq> []"
  shows "np_std (map (\<lambda>x. (x - np_mean v)
                          / handle_zeros_in_scale (np_std v)
                              (is_constant_feature (np_var v) (np_mean v) n)) v)
           = (if is_constant_feature (np_var v) (np_mean v) n then np_std v else 1)"
proof (cases "is_constant_feature (np_var v) (np_mean v) n")
  case True
  have "np_var (map (\<lambda>x. x - np_mean v) v) = np_var v"
    using np_var_scaled[OF assms, of 1] by simp
  with True show ?thesis
    by (simp add: handle_zeros_in_scale_def np_std_def)
next
  case False
  then have nz: "np_var v \<noteq> 0" using zero_variance_is_constant by metis
  have sq: "(np_std v)\<^sup>2 = np_var v"
    by (simp add: np_std_def np_var_nonneg)
  from False show ?thesis
    by (simp add: handle_zeros_in_scale_def np_std_def[of "map _ v"] np_var_scaled[OF assms]
        sq nz)
qed

lemma n_features_width: "has_width d X \<Longrightarrow> X \<noteq> [] \<Longrightarrow> n_features X = d"
  by (cases X) (simp_all add: n_features_def has_width_def)

lemma fit_Inr:
  assumes "fit X = Inr sc" and "has_width d X"
  shows "X \<noteq> []" and "0 < d"
    and "fitted_mean sc = map (\<lambda>j. np_mean (column X j)) [0..<d]"
    and "fitted_var sc = map (\<lambda>j. np_var (column X j)) [0..<d]"
    and "fitted_scale sc
           = map (\<lambda>j. handle_zeros_in_scale (np_std (column X j)) (treated_as_constant X j))
               [0..<d]"
proof -
  from assms(1) show ne: "X \<noteq> []" by (auto simp: fit_def split: if_splits)
  have d: "n_features X = d" using assms(2) ne by (rule n_features_width)
  from assms(1) d show "0 < d" by (auto simp: fit_def split: if_splits)
  from assms(1) d show "fitted_mean sc = map (\<lambda>j. np_mean (column X j)) [0..<d]"
    "fitted_var sc = map (\<lambda>j. np_var (column X j)) [0..<d]"
    "fitted_scale sc
       = map (\<lambda>j. handle_zeros_in_scale (np_std (column X j)) (treated_as_constant X j))
           [0..<d]"
    by (auto simp: fit_def Let_def comp_def treated_as_constant_def split: if_splits)
qed

lemma fit_returns:
  assumes "X \<noteq> []" and "has_width d X" and "0 < d"
  shows "\<exists>sc. fit X = Inr sc"
  using assms n_features_width[OF assms(2,1)] by (simp add: fit_def Let_def)

lemma transform_Inr:
  assumes "transform sc P = Inr Z"
  shows "Z = map (\<lambda>r. map (\<lambda>j. (r ! j - fitted_mean sc ! j) / fitted_scale sc ! j)
                       [0..<length (fitted_mean sc)]) P"
  using assms by (auto simp: transform_def split: if_splits)

lemma transform_returns:
  assumes "P \<noteq> []" and "has_width d P" and "0 < d" and "length (fitted_mean sc) = d"
  shows "\<exists>Z. transform sc P = Inr Z"
  using assms n_features_width[OF assms(2,1)] by (simp add: transform_def)

lemma transform_entry:
  assumes "transform sc P = Inr Z" and "i < length P" and "j < length (fitted_mean sc)"
  shows "Z ! i ! j = (P ! i ! j - fitted_mean sc ! j) / fitted_scale sc ! j"
  using assms(2,3) unfolding transform_Inr[OF assms(1)] by simp

lemma transform_column:
  assumes "transform sc P = Inr Z" and "j < length (fitted_mean sc)"
  shows "column Z j = map (\<lambda>x. (x - fitted_mean sc ! j) / fitted_scale sc ! j) (column P j)"
  using assms(2) unfolding transform_Inr[OF assms(1)] by (simp add: column_def comp_def)

lemma fit_transform_Inr:
  "fit_transform X = Inr (sc, Z) \<longleftrightarrow> fit X = Inr sc \<and> transform sc X = Inr Z"
  by (auto simp: fit_transform_def split: sum.splits)

lemma fit_transform_standardizes:
  assumes ft: "fit_transform X = Inr (sc, Z)" and w: "has_width d X" and j: "j < d"
  shows "np_mean (column Z j) = 0
       \<and> np_std (column Z j) = (if treated_as_constant X j then np_std (column X j) else 1)"
proof -
  from ft have f: "fit X = Inr sc" and t: "transform sc X = Inr Z"
    by (simp_all add: fit_transform_Inr)
  note fi = fit_Inr[OF f w]
  have l: "j < length (fitted_mean sc)" using j by (simp add: fi(3))
  have c: "column X j \<noteq> []" using fi(1) by (simp add: column_def)
  have n: "length (column X j) = length X" by (simp add: column_def)
  have "column Z j
          = map (\<lambda>x. (x - np_mean (column X j))
                       / handle_zeros_in_scale (np_std (column X j))
                           (is_constant_feature (np_var (column X j)) (np_mean (column X j))
                              (length X)))
              (column X j)"
    using transform_column[OF t l] j by (simp add: fi(3,5) treated_as_constant_def)
  then show ?thesis
    using np_mean_standardized[OF c] np_std_scaled[OF c, of "length X"]
    by (simp add: treated_as_constant_def)
qed

lemma has_width_safe_indexing:
  "has_width d X \<Longrightarrow> set ind \<subseteq> {..<length X} \<Longrightarrow> has_width d (safe_indexing X ind)"
  by (auto simp: has_width_iff safe_indexing_def)

lemma train_test_split_width:
  assumes p: "mset (permutation (length X)) = mset [0..<length X]"
    and s: "train_test_split permutation X y ts = Inr (Xtr, Xte, ytr, yte)"
    and w: "has_width d X"
  shows "has_width d Xtr \<and> has_width d Xte"
proof -
  from train_test_split_indices[OF p s] obtain itr ite where
    r: "Xtr = safe_indexing X itr" "Xte = safe_indexing X ite"
    and m: "mset itr + mset ite = mset [0..<length X]"
    by blast
  from m have "mset (itr @ ite) = mset [0..<length X]" by simp
  then have "set (itr @ ite) = {..<length X}" by (rule permutation_set)
  then have "set itr \<subseteq> {..<length X}" "set ite \<subseteq> {..<length X}" by auto
  then show ?thesis unfolding r using w by (simp add: has_width_safe_indexing)
qed

lemma main_split_width:
  assumes perm: "\<And>n. mset (permutation n) = mset [0..<n]"
    and s: "main_split permutation ratio X y = Inr ((Xtr, ytr), (Xva, yva), (Xte, yte))"
    and w: "has_width d X"
  shows "has_width d Xtr \<and> has_width d Xva \<and> has_width d Xte"
proof -
  from s obtain X1 y1 where
    s1: "train_test_split permutation X y ratio = Inr (X1, Xte, y1, yte)"
    and s2: "train_test_split permutation X1 y1 0.2 = Inr (Xtr, Xva, ytr, yva)"
    by (auto simp: main_split_def split: sum.splits)
  from train_test_split_width[OF perm s1 w] have "has_width d X1" "has_width d Xte" by simp_all
  with train_test_split_width[OF perm s2] show ?thesis by simp
qed

lemma main_prepare_data_Inr:
  assumes "main_prepare_data permutation ratio X y = Inr r"
  shows "\<exists>ytr yva yte.
           main_split permutation ratio X y
             = Inr ((X_train_final r, ytr), (X_val r, yva), (X_test r, yte))"
    and "fit (X_train_final r) = Inr (scaler r)"
    and "transform (scaler r) (X_train_final r) = Inr (X_train_scaled r)"
    and "transform (scaler r) (X_val r) = Inr (X_val_scaled r)"
    and "transform (scaler r) (X_test r) = Inr (X_test_scaled r)"
  using assms
  by (auto simp: main_prepare_data_def fit_transform_def split: sum.splits prod.splits)

lemma main_prepare_data_width:
  assumes perm: "\<And>n. mset (permutation n) = mset [0..<n]"
    and w: "has_width d X"
    and run: "main_prepare_data permutation ratio X y = Inr r"
  shows "has_width d (X_train_final r)" "has_width d (X_val r)" "has_width d (X_test r)"
proof -
  from main_prepare_data_Inr(1)[OF run] obtain ytr yva yte where
    "main_split permutation ratio X y
       = Inr ((X_train_final r, ytr), (X_val r, yva), (X_test r, yte))"
    by blast
  from main_split_width[OF perm this w]
  show "has_width d (X_train_final r)" "has_width d (X_val r)" "has_width d (X_test r)"
    by simp_all
qed

lemma notebook_preprocess_Inr:
  assumes "notebook_preprocess permutation X y = Inr (X_train, X_test0, sc, Ztr, Zte)"
  shows "\<exists>y_train y_test.
           train_test_split permutation X y 0.2 = Inr (X_train, X_test0, y_train, y_test)"
    and "fit X_train = Inr sc"
    and "transform sc X_train = Inr Ztr"
    and "transform sc X_test0 = Inr Zte"
  using assms
  by (auto simp: notebook_preprocess_def fit_transform_def split: sum.splits prod.splits)

lemma main_prepare_data_returns:
  assumes perm: "\<And>n. mset (permutation n) = mset [0..<n]"
    and w: "has_width d X" and d: "0 < d"
    and l: "length X = length y" and n: "3 \<le> length X"
  shows "\<exists>r. main_prepare_data permutation 0.2 X y = Inr r"
proof -
  from main_split_returns[OF perm l n] obtain Xtr ytr Xva yva Xte yte where
    s: "main_split permutation 0.2 X y = Inr ((Xtr, ytr), (Xva, yva), (Xte, yte))"
    by (metis prod.exhaust)
  from main_split_sizes[OF perm s] have ne: "Xtr \<noteq> []" "Xva \<noteq> []" "Xte \<noteq> []" by simp_all
  from main_split_width[OF perm s w] have
    ws: "has_width d Xtr" "has_width d Xva" "has_width d Xte" by simp_all
  from fit_returns[OF ne(1) ws(1) d] obtain sc where f: "fit Xtr = Inr sc" by blast
  have lm: "length (fitted_mean sc) = d" by (simp add: fit_Inr(3)[OF f ws(1)])
  from transform_returns[OF ne(1) ws(1) d lm] transform_returns[OF ne(2) ws(2) d lm]
    transform_returns[OF ne(3) ws(3) d lm]
  obtain Ztr Zva Zte where "transform sc Xtr = Inr Ztr" "transform sc Xva = Inr Zva"
    "transform sc Xte = Inr Zte"
    by blast
  then show ?thesis unfolding main_prepare_data_def s by (simp add: fit_transform_def f)
qed

lemma example_permutation_valid: "mset (example_permutation n) = mset [0..<n]"
proof -
  have "mset [1, 4, 2, 0, 3::nat] = mset [0..<5]" "mset [1, 3, 0, 2::nat] = mset [0..<4]"
    by code_simp+
  then show ?thesis unfolding example_permutation_def by auto
qed

text \<open>
  Claim C5, as the code has it. In the training script, after the scaler fitted on the
  training partition is applied to that partition, every feature column has mean 0,
  exactly, in real arithmetic. Its standard deviation is 1, exactly, for every feature
  that the scaler does not take to be constant; a feature it takes to be constant (zero
  training variance, or a training variance under the library's bound) is only centred
  and keeps the standard deviation it has on the training partition, which is 0 for a
  constant column. (The rounding of floating point is not modelled.)
\<close>

theorem standardized_training_columns:
  assumes perm: "\<And>n. mset (permutation n) = mset [0..<n]"
    and w: "has_width d X"
    and run: "main_prepare_data permutation ratio X y = Inr r"
    and j: "j < d"
  shows "np_mean (column (X_train_scaled r) j) = 0
       \<and> np_std (column (X_train_scaled r) j)
           = (if treated_as_constant (X_train_final r) j
              then np_std (column (X_train_final r) j) else 1)
       \<and> (np_var (column (X_train_final r) j) = 0
            \<longrightarrow> treated_as_constant (X_train_final r) j
                \<and> np_std (column (X_train_scaled r) j) = 0)"
proof -
  have "fit_transform (X_train_final r) = Inr (scaler r, X_train_scaled r)"
    using main_prepare_data_Inr(2,3)[OF run] by (simp add: fit_transform_Inr)
  from fit_transform_standardizes[OF this main_prepare_data_width(1)[OF perm w run] j]
  have a: "np_mean (column (X_train_scaled r) j) = 0"
    and b: "np_std (column (X_train_scaled r) j)
           = (if treated_as_constant (X_train_final r) j
              then np_std (column (X_train_final r) j) else 1)"
    by simp_all
  have "treated_as_constant (X_train_final r) j \<and> np_std (column (X_train_scaled r) j) = 0"
    if z: "np_var (column (X_train_final r) j) = 0"
  proof -
    have "treated_as_constant (X_train_final r) j"
      by (simp add: treated_as_constant_def z zero_variance_is_constant)
    with b z show ?thesis by (simp add: np_std_def)
  qed
  with a b show ?thesis by blast
qed

text \<open>The same holds for the preprocessing cell of the tutorial notebook.\<close>

lemma notebook_standardized_training_columns:
  assumes perm: "\<And>n. mset (permutation n) = mset [0..<n]"
    and w: "has_width d X"
    and run: "notebook_preprocess permutation X y = Inr (X_train, X_test0, sc, Ztr, Zte)"
    and j: "j < d"
  shows "np_mean (column Ztr j) = 0
       \<and> np_std (column Ztr j)
           = (if treated_as_constant X_train j then np_std (column X_train j) else 1)"
proof -
  from notebook_preprocess_Inr(1)[OF run] obtain y_train y_test where
    s: "train_test_split permutation X y 0.2 = Inr (X_train, X_test0, y_train, y_test)"
    by blast
  have wt: "has_width d X_train" using train_test_split_width[OF perm s w] by simp
  have "fit_transform X_train = Inr (sc, Ztr)"
    using notebook_preprocess_Inr(2,3)[OF run] by (simp add: fit_transform_Inr)
  from fit_transform_standardizes[OF this wt j] show ?thesis .
qed

lemma example_split:
  "main_split example_permutation 0.2 [[5], [8], [9], [1], [3::real]] [6, 5, 4, 7, 5::real]
     = Inr (([[1], [3], [5]], [7, 5, 6]), ([[9]], [4]), ([[8]], [5]))"
  by code_simp

lemma example_not_constant: "\<not> treated_as_constant [[1], [3], [5]] 0"
  by (simp add: treated_as_constant_def is_constant_feature_def float64_eps_def column_def
      np_var_def np_mean_def power2_eq_square)

lemma example_run:
  "\<exists>r. main_prepare_data example_permutation 0.2 [[5], [8], [9], [1], [3]] [6, 5, 4, 7, 5] = Inr r
       \<and> X_train_final r = [[1], [3], [5]] \<and> X_val r = [[9]] \<and> X_test r = [[8]]"
proof -
  have w: "has_width 1 [[5], [8], [9], [1], [3]]" by (simp add: has_width_def)
  from main_prepare_data_returns[OF example_permutation_valid w, of "[6, 5, 4, 7, 5]"]
  obtain r where
    r: "main_prepare_data example_permutation 0.2 [[5], [8], [9], [1], [3]] [6, 5, 4, 7, 5] = Inr r"
    by auto
  from main_prepare_data_Inr(1)[OF r] show ?thesis
    using r unfolding example_split by auto
qed

theorem standardized_training_columns_witness:
  "\<exists>r. main_prepare_data example_permutation 0.2 [[5], [8], [9], [1], [3]] [6, 5, 4, 7, 5] = Inr r
       \<and> X_train_final r = [[1], [3], [5]]
       \<and> np_mean (column (X_train_scaled r) 0) = 0
       \<and> np_std (column (X_train_scaled r) 0) = 1"
proof -
  have w: "has_width 1 [[5], [8], [9], [1], [3]]" by (simp add: has_width_def)
  from example_run obtain r where
    r: "main_prepare_data example_permutation 0.2 [[5], [8], [9], [1], [3]] [6, 5, 4, 7, 5] = Inr r"
    and t: "X_train_final r = [[1], [3], [5]]"
    by blast
  from standardized_training_columns[OF example_permutation_valid w r, of 0]
  have "np_mean (column (X_train_scaled r) 0) = 0"
    "np_std (column (X_train_scaled r) 0) = 1"
    by (simp_all add: t example_not_constant)
  with r t show ?thesis by blast
qed

text \<open>
  A standard deviation of 1 does not hold for every feature of every dataset: on a table
  whose feature has the same value in every row the training variance is 0, the scaler
  divides by 1, and the standardized training column is constantly 0, with standard
  deviation 0. (Whatever the permutation, the training partition of this table is the
  same.)
\<close>

lemma constant_table_split:
  "main_split example_permutation 0.2 [[5], [5], [5], [5], [5::real]] [6, 6, 6, 6, 6::real]
     = Inr (([[5], [5], [5]], [6, 6, 6]), ([[5]], [6]), ([[5]], [6]))"
  by code_simp

lemma constant_table_fit:
  "fit [[5], [5], [5]] = Inr \<lparr>fitted_mean = [5], fitted_var = [0], fitted_scale = [1]\<rparr>"
  by (simp add: fit_def n_features_def column_def np_mean_def np_var_def np_std_def
      handle_zeros_in_scale_def is_constant_feature_def Let_def)

theorem constant_table_counterexample:
  "main_prepare_data example_permutation 0.2 [[5], [5], [5], [5], [5]] [6, 6, 6, 6, 6]
     = Inr \<lparr>X_train_final = [[5], [5], [5]], X_val = [[5]], X_test = [[5]],
            scaler = \<lparr>fitted_mean = [5], fitted_var = [0], fitted_scale = [1]\<rparr>,
            X_train_scaled = [[0], [0], [0]], X_val_scaled = [[0]], X_test_scaled = [[0]]\<rparr>
   \<and> np_var (column [[5], [5], [5]] 0) = 0
   \<and> np_mean (column [[0], [0], [0]] 0) = 0
   \<and> np_std (column [[0], [0], [0]] 0) = 0
   \<and> np_std (column [[0], [0], [0]] 0) \<noteq> 1"
proof -
  have 1: "main_prepare_data example_permutation 0.2 [[5], [5], [5], [5], [5]] [6, 6, 6, 6, 6]
     = Inr \<lparr>X_train_final = [[5], [5], [5]], X_val = [[5]], X_test = [[5]],
            scaler = \<lparr>fitted_mean = [5], fitted_var = [0], fitted_scale = [1]\<rparr>,
            X_train_scaled = [[0], [0], [0]], X_val_scaled = [[0]], X_test_scaled = [[0]]\<rparr>"
    unfolding main_prepare_data_def constant_table_split
    by (simp add: fit_transform_def constant_table_fit transform_def n_features_def)
  have 2: "np_var (column [[5], [5], [5]] 0) = 0" "np_mean (column [[0], [0], [0]] 0) = 0"
    "np_std (column [[0], [0], [0]] 0) = 0"
    by (simp_all add: column_def np_std_def np_var_def np_mean_def)
  show ?thesis unfolding 2 using 1 by simp
qed

text \<open>
  The scaler's test for a constant column also holds for a column whose variance is not
  zero but under the library's bound: for the training column \<open>1, 1 + 2 ** -52\<close> the
  variance is \<open>2 ** -106\<close> and the divisor is 1.
\<close>

lemma near_constant_column:
  "np_var (column [[1], [1 + 1 / 2 ^ 52]] 0) = 1 / 2 ^ 106
   \<and> treated_as_constant [[1], [1 + 1 / 2 ^ 52]] 0
   \<and> (\<exists>sc. fit [[1], [1 + 1 / 2 ^ 52]] = Inr sc \<and> fitted_scale sc = [1])"
proof -
  let ?T = "[[1], [1 + 1 / 2 ^ 52 :: real]]"
  have c: "column ?T 0 = [1, 1 + 1 / 2 ^ 52]"
    by (simp add: column_def)
  have m: "np_mean [1, 1 + 1 / 2 ^ 52] = 1 + 1 / 2 ^ 53"
    by (simp add: np_mean_def)
  have v: "np_var [1, 1 + 1 / 2 ^ 52] = 1 / 2 ^ 106"
    unfolding np_var_def m by (simp add: np_mean_def power2_eq_square)
  have l: "length ?T = 2" by simp
  have k: "is_constant_feature (1 / 2 ^ 106) (1 + 1 / 2 ^ 53) 2"
    by (simp add: is_constant_feature_def float64_eps_def power2_eq_square)
  have t: "treated_as_constant ?T 0"
    unfolding treated_as_constant_def c m v l by (rule k)
  have w: "has_width 1 ?T" by (simp add: has_width_def)
  from fit_returns[OF _ w] obtain sc where f: "fit ?T = Inr sc" by auto
  have "fitted_scale sc = [handle_zeros_in_scale (np_std (column ?T 0)) (treated_as_constant ?T 0)]"
    unfolding fit_Inr(5)[OF f w] by simp
  then have "fitted_scale sc = [1]" unfolding handle_zeros_in_scale_def using t by simp
  with f have "\<exists>sc. fit ?T = Inr sc \<and> fitted_scale sc = [1]" by blast
  with t show ?thesis unfolding c v by blast
qed

lemma fitted_statistics:
  assumes f: "fit T = Inr sc" and w: "has_width d T" and j: "j < d"
  shows "fitted_mean sc ! j = np_mean (column T j)"
    and "fitted_scale sc ! j = (if treated_as_constant T j then 1 else np_std (column T j))"
    and "j < length (fitted_mean sc)"
  using j by (simp_all add: fit_Inr(3,5)[OF f w] handle_zeros_in_scale_def)

lemma transform_rule:
  assumes f: "fit T = Inr sc" and w: "has_width d T" and j: "j < d"
    and t: "transform sc P = Inr Z" and i: "i < length P"
  shows "Z ! i ! j
           = (P ! i ! j - np_mean (column T j))
               / (if treated_as_constant T j then 1 else np_std (column T j))"
  using transform_entry[OF t i fitted_statistics(3)[OF f w j]]
  by (simp only: fitted_statistics(1,2)[OF f w j])

text \<open>
  Claim C1, as the code has it. In the training script the scaler is the result of
  \<open>fit\<close> on the training partition and of nothing else: a run with other validation and
  test rows and the same training partition has the same scaler. Its per-feature mean
  is the mean of the training column. All three partitions are transformed by this one
  scaler. For a feature that the scaler does not take to be constant the rule is
  \<open>scaled = (x - mean) / std\<close>, with the training mean and standard deviation; for a
  feature it takes to be constant on the training partition (zero variance, or a
  variance under the library's bound) it divides by 1, so \<open>scaled = x - mean\<close>.
\<close>

theorem scaler_fitted_on_training_only:
  assumes perm: "\<And>n. mset (permutation n) = mset [0..<n]"
    and w: "has_width d X"
    and run: "main_prepare_data permutation ratio X y = Inr r"
  shows "fit (X_train_final r) = Inr (scaler r)
       \<and> transform (scaler r) (X_train_final r) = Inr (X_train_scaled r)
       \<and> transform (scaler r) (X_val r) = Inr (X_val_scaled r)
       \<and> transform (scaler r) (X_test r) = Inr (X_test_scaled r)
       \<and> (\<forall>permutation' ratio' X' y' r'.
             main_prepare_data permutation' ratio' X' y' = Inr r'
               \<and> X_train_final r' = X_train_final r
             \<longrightarrow> scaler r' = scaler r)
       \<and> (\<forall>j<d. fitted_mean (scaler r) ! j = np_mean (column (X_train_final r) j))
       \<and> (\<forall>j<d. np_var (column (X_train_final r) j) = 0
                   \<longrightarrow> treated_as_constant (X_train_final r) j)
       \<and> (\<forall>j<d. \<forall>P Z. (P, Z) \<in> {(X_train_final r, X_train_scaled r), (X_val r, X_val_scaled r),
                                 (X_test r, X_test_scaled r)}
             \<longrightarrow> (\<forall>i<length P.
                    Z ! i ! j
                      = (if treated_as_constant (X_train_final r) j
                         then P ! i ! j - np_mean (column (X_train_final r) j)
                         else (P ! i ! j - np_mean (column (X_train_final r) j))
                                / np_std (column (X_train_final r) j))))"
proof -
  note d = main_prepare_data_Inr[OF run]
  note wt = main_prepare_data_width(1)[OF perm w run]
  have same: "\<forall>permutation' ratio' X' y' r'.
             main_prepare_data permutation' ratio' X' y' = Inr r'
               \<and> X_train_final r' = X_train_final r
             \<longrightarrow> scaler r' = scaler r"
  proof (intro allI impI, elim conjE)
    fix permutation' ratio' X' y' r'
    assume run': "main_prepare_data permutation' ratio' X' y' = Inr r'"
      and e: "X_train_final r' = X_train_final r"
    have "fit (X_train_final r') = Inr (scaler r')" using run' by (rule main_prepare_data_Inr(2))
    with d(2) e show "scaler r' = scaler r" by simp
  qed
  have mean: "\<forall>j<d. fitted_mean (scaler r) ! j = np_mean (column (X_train_final r) j)"
    using fitted_statistics(1)[OF d(2) wt] by blast
  have zero: "\<forall>j<d. np_var (column (X_train_final r) j) = 0
                   \<longrightarrow> treated_as_constant (X_train_final r) j"
    by (simp add: treated_as_constant_def zero_variance_is_constant)
  have rule: "Z ! i ! j
                = (if treated_as_constant (X_train_final r) j
                   then P ! i ! j - np_mean (column (X_train_final r) j)
                   else (P ! i ! j - np_mean (column (X_train_final r) j))
                          / np_std (column (X_train_final r) j))"
    if "j < d" "transform (scaler r) P = Inr Z" "i < length P" for j P Z i
    using transform_rule[OF d(2) wt that] by simp
  have all: "\<forall>j<d. \<forall>P Z. (P, Z) \<in> {(X_train_final r, X_train_scaled r), (X_val r, X_val_scaled r),
                                 (X_test r, X_test_scaled r)}
             \<longrightarrow> (\<forall>i<length P.
                    Z ! i ! j
                      = (if treated_as_constant (X_train_final r) j
                         then P ! i ! j - np_mean (column (X_train_final r) j)
                         else (P ! i ! j - np_mean (column (X_train_final r) j))
                                / np_std (column (X_train_final r) j)))"
    using rule d(3,4,5) by blast
  from d(2,3,4,5) same mean zero all show ?thesis by blast
qed

theorem scaler_fitted_on_training_only_witness:
  "\<exists>r. main_prepare_data example_permutation 0.2 [[5], [8], [9], [1], [3]] [6, 5, 4, 7, 5] = Inr r
       \<and> X_train_final r = [[1], [3], [5]] \<and> X_val r = [[9]]
       \<and> fit [[1], [3], [5]] = Inr (scaler r)
       \<and> transform (scaler r) [[9]] = Inr (X_val_scaled r)
       \<and> X_val_scaled r ! 0 ! 0
           = (9 - np_mean (column [[1], [3], [5]] 0)) / np_std (column [[1], [3], [5]] 0)"
proof -
  have w: "has_width 1 [[5], [8], [9], [1], [3]]" by (simp add: has_width_def)
  from example_run obtain r where
    r: "main_prepare_data example_permutation 0.2 [[5], [8], [9], [1], [3]] [6, 5, 4, 7, 5] = Inr r"
    and t: "X_train_final r = [[1], [3], [5]]" "X_val r = [[9]]"
    by blast
  note c = scaler_fitted_on_training_only[OF example_permutation_valid w r, unfolded t]
  from c have a: "fit [[1], [3], [5]] = Inr (scaler r)"
    and b: "transform (scaler r) [[9]] = Inr (X_val_scaled r)"
    by blast+
  from c have "\<forall>j<1. \<forall>P Z. (P, Z) \<in> {([[1], [3], [5]], X_train_scaled r), ([[9]], X_val_scaled r),
                                 (X_test r, X_test_scaled r)}
             \<longrightarrow> (\<forall>i<length P.
                    Z ! i ! j
                      = (if treated_as_constant [[1], [3], [5]] j
                         then P ! i ! j - np_mean (column [[1], [3], [5]] j)
                         else (P ! i ! j - np_mean (column [[1], [3], [5]] j))
                                / np_std (column [[1], [3], [5]] j)))"
    by blast
  moreover have "([[9]], X_val_scaled r) \<in> {([[1], [3], [5]], X_train_scaled r), ([[9]], X_val_scaled r),
                                 (X_test r, X_test_scaled r)}"
    by simp
  ultimately have "\<forall>i<length [[9::real]]. X_val_scaled r ! i ! 0
      = (if treated_as_constant [[1], [3], [5]] 0
         then [[9]] ! i ! 0 - np_mean (column [[1], [3], [5]] 0)
         else ([[9]] ! i ! 0 - np_mean (column [[1], [3], [5]] 0))
                / np_std (column [[1], [3], [5]] 0))"
    by blast
  then have "X_val_scaled r ! 0 ! 0
      = (9 - np_mean (column [[1], [3], [5]] 0)) / np_std (column [[1], [3], [5]] 0)"
    by (simp add: example_not_constant)
  with r t a b show ?thesis by blast
qed

lemma one_hot_split:
  "main_split example_permutation 0.2 (one_hot_table 5) [6, 5, 4, 7, 5::real]
     = Inr (([[0, 0, 0, 1, 0], [0, 0, 0, 0, 1], [1, 0, 0, 0, 0]], [7, 5, 6]),
            ([[0, 0, 1, 0, 0]], [4]), ([[0, 1, 0, 0, 0]], [5]))"
  by code_simp

lemma one_hot_fit:
  "fit [[0, 0, 0, 1, 0], [0, 0, 0, 0, 1], [1, 0, 0, 0, 0]]
     = Inr \<lparr>fitted_mean = [1 / 3, 0, 0, 1 / 3, 1 / 3],
            fitted_var = [2 / 9, 0, 0, 2 / 9, 2 / 9],
            fitted_scale = [sqrt (2 / 9), 1, 1, sqrt (2 / 9), sqrt (2 / 9)]\<rparr>"
proof -
  have u: "[0..<5] = [0, 1, 2, 3, 4::nat]" by code_simp
  show ?thesis
    by (simp add: fit_def n_features_def u column_def np_mean_def np_var_def np_std_def
      handle_zeros_in_scale_def is_constant_feature_def float64_eps_def Let_def
      power2_eq_square)
qed

text \<open>
  The rule \<open>(x - mean) / std\<close> does not hold for every dataset. On the table of five
  rows with one feature per row that is 1 there and 0 elsewhere, the feature of the test
  row is 0 on the whole training partition: its training standard deviation is 0, the
  scaler divides by 1, and the test row's value 1 is mapped to \<open>x - mean = 1\<close>, where the
  rule would divide by 0 (which gives 0 in HOL and infinity in NumPy).
\<close>

theorem constant_feature_counterexample:
  "main_prepare_data example_permutation 0.2 (one_hot_table 5) [6, 5, 4, 7, 5]
     = Inr \<lparr>X_train_final = [[0, 0, 0, 1, 0], [0, 0, 0, 0, 1], [1, 0, 0, 0, 0]],
            X_val = [[0, 0, 1, 0, 0]], X_test = [[0, 1, 0, 0, 0]],
            scaler = \<lparr>fitted_mean = [1 / 3, 0, 0, 1 / 3, 1 / 3],
                       fitted_var = [2 / 9, 0, 0, 2 / 9, 2 / 9],
                       fitted_scale = [sqrt (2 / 9), 1, 1, sqrt (2 / 9), sqrt (2 / 9)]\<rparr>,
            X_train_scaled =
              [[(0 - 1 / 3) / sqrt (2 / 9), 0, 0, (1 - 1 / 3) / sqrt (2 / 9), (0 - 1 / 3) / sqrt (2 / 9)],
               [(0 - 1 / 3) / sqrt (2 / 9), 0, 0, (0 - 1 / 3) / sqrt (2 / 9), (1 - 1 / 3) / sqrt (2 / 9)],
               [(1 - 1 / 3) / sqrt (2 / 9), 0, 0, (0 - 1 / 3) / sqrt (2 / 9), (0 - 1 / 3) / sqrt (2 / 9)]],
            X_val_scaled =
              [[(0 - 1 / 3) / sqrt (2 / 9), 0, 1, (0 - 1 / 3) / sqrt (2 / 9), (0 - 1 / 3) / sqrt (2 / 9)]],
            X_test_scaled =
              [[(0 - 1 / 3) / sqrt (2 / 9), 1, 0, (0 - 1 / 3) / sqrt (2 / 9), (0 - 1 / 3) / sqrt (2 / 9)]]\<rparr>
   \<and> np_mean (column [[0, 0, 0, 1, 0], [0, 0, 0, 0, 1], [1, 0, 0, 0, 0]] 1) = 0
   \<and> np_std (column [[0, 0, 0, 1, 0], [0, 0, 0, 0, 1], [1, 0, 0, 0, 0]] 1) = 0
   \<and> [[0, 1, 0, 0, 0 :: real]] ! 0 ! 1 = 1
   \<and> (1 :: real)
       \<noteq> ([[0, 1, 0, 0, 0]] ! 0 ! 1
            - np_mean (column [[0, 0, 0, 1, 0], [0, 0, 0, 0, 1], [1, 0, 0, 0, 0]] 1))
           / np_std (column [[0, 0, 0, 1, 0], [0, 0, 0, 0, 1], [1, 0, 0, 0, 0]] 1)"
proof -
  have u: "[0..<5] = [0, 1, 2, 3, 4::nat]" by code_simp
  have 1: "main_prepare_data example_permutation 0.2 (one_hot_table 5) [6, 5, 4, 7, 5]
     = Inr \<lparr>X_train_final = [[0, 0, 0, 1, 0], [0, 0, 0, 0, 1], [1, 0, 0, 0, 0]],
            X_val = [[0, 0, 1, 0, 0]], X_test = [[0, 1, 0, 0, 0]],
            scaler = \<lparr>fitted_mean = [1 / 3, 0, 0, 1 / 3, 1 / 3],
                       fitted_var = [2 / 9, 0, 0, 2 / 9, 2 / 9],
                       fitted_scale = [sqrt (2 / 9), 1, 1, sqrt (2 / 9), sqrt (2 / 9)]\<rparr>,
            X_train_scaled =
              [[(0 - 1 / 3) / sqrt (2 / 9), 0, 0, (1 - 1 / 3) / sqrt (2 / 9), (0 - 1 / 3) / sqrt (2 / 9)],
               [(0 - 1 / 3) / sqrt (2 / 9), 0, 0, (0 - 1 / 3) / sqrt (2 / 9), (1 - 1 / 3) / sqrt (2 / 9)],
               [(1 - 1 / 3) / sqrt (2 / 9), 0, 0, (0 - 1 / 3) / sqrt (2 / 9), (0 - 1 / 3) / sqrt (2 / 9)]],
            X_val_scaled =
              [[(0 - 1 / 3) / sqrt (2 / 9), 0, 1, (0 - 1 / 3) / sqrt (2 / 9), (0 - 1 / 3) / sqrt (2 / 9)]],
            X_test_scaled =
              [[(0 - 1 / 3) / sqrt (2 / 9), 1, 0, (0 - 1 / 3) / sqrt (2 / 9), (0 - 1 / 3) / sqrt (2 / 9)]]\<rparr>"
    unfolding main_prepare_data_def one_hot_split
    by (simp add: fit_transform_def one_hot_fit transform_def n_features_def u)
  have 2: "np_mean (column [[0, 0, 0, 1, 0], [0, 0, 0, 0, 1], [1, 0, 0, 0, 0]] 1) = 0"
    "np_std (column [[0, 0, 0, 1, 0], [0, 0, 0, 0, 1], [1, 0, 0, 0, 0]] 1) = 0"
    by (simp_all add: column_def np_std_def np_var_def np_mean_def)
  show ?thesis unfolding 2 using 1 by simp
qed

text \<open>
  The failure on this table does not depend on the permutation that the seeded generator
  returns: for every permutation the feature of the test row is 0 on the whole training
  partition, and the test row's 1 is mapped to 1.
\<close>

lemma one_hot_table_entry:
  "i < n \<Longrightarrow> j < n \<Longrightarrow> one_hot_table n ! i ! j = (if i = j then 1 else 0)"
  by (simp add: one_hot_table_def)

lemma one_hot_table_shape: "length (one_hot_table n) = n" "has_width n (one_hot_table n)"
  by (simp_all add: one_hot_table_def has_width_iff)

lemma constant_feature_for_every_permutation:
  assumes perm: "\<And>n. mset (permutation n) = mset [0..<n]"
  shows "\<exists>r a. main_prepare_data permutation 0.2 (one_hot_table 5) [6, 5, 4, 7, 5] = Inr r
           \<and> a < 5 \<and> X_test r = [one_hot_table 5 ! a]
           \<and> np_mean (column (X_train_final r) a) = 0
           \<and> np_std (column (X_train_final r) a) = 0
           \<and> X_test r ! 0 ! a = 1
           \<and> X_test_scaled r ! 0 ! a = 1"
proof -
  let ?X = "one_hot_table 5"
  note sh = one_hot_table_shape[of 5]
  from main_prepare_data_returns[OF perm sh(2), of "[6, 5, 4, 7, 5]"] sh(1) obtain r where
    r: "main_prepare_data permutation 0.2 ?X [6, 5, 4, 7, 5] = Inr r"
    by auto
  note d = main_prepare_data_Inr[OF r]
  from d(1) obtain ytr yva yte where
    s: "main_split permutation 0.2 ?X [6, 5, 4, 7, 5::real]
          = Inr ((X_train_final r, ytr), (X_val r, yva), (X_test r, yte))"
    by blast
  from main_split_indices[OF perm s] obtain itr iva ite where
    i: "X_train_final r = safe_indexing ?X itr" "X_test r = safe_indexing ?X ite"
    and m: "mset itr + mset iva + mset ite = mset [0..<length ?X]"
    by blast
  have "length (X_test r) = nat \<lceil>0.2 * real (length ?X)\<rceil>"
    using main_split_sizes[OF perm s] by simp
  then have "length (X_test r) = 1" by (simp add: sh(1))
  then have "length ite = 1" by (simp add: i(2) safe_indexing_def)
  then obtain a where a: "ite = [a]" by (cases ite) auto
  from m have m': "mset (itr @ iva @ [a]) = mset [0..<5]" by (simp add: a sh(1) ac_simps)
  have "distinct (itr @ iva @ [a])" using m' by (rule permutation_distinct)
  moreover have "set (itr @ iva @ [a]) = {..<5}" using m' by (rule permutation_set)
  ultimately have a5: "a < 5" and na: "a \<notin> set itr" and it: "set itr \<subseteq> {..<5}" by auto
  have te: "X_test r = [?X ! a]" by (simp add: i(2) a safe_indexing_def)
  have "column (X_train_final r) a = map (\<lambda>k. ?X ! k ! a) itr"
    by (simp add: i(1) column_def safe_indexing_def comp_def)
  also have "\<dots> = map (\<lambda>k. 0) itr"
    using na it a5 by (intro map_cong) (auto simp: one_hot_table_entry)
  finally have col: "column (X_train_final r) a = map (\<lambda>k. 0) itr" .
  have z: "sum_list (map (\<lambda>k. 0::real) itr) = 0" by simp
  have mean: "np_mean (column (X_train_final r) a) = 0"
    by (simp add: col np_mean_def)
  have var: "np_var (column (X_train_final r) a) = 0"
    by (simp add: col np_var_def np_mean_def comp_def)
  then have std: "np_std (column (X_train_final r) a) = 0" by (simp add: np_std_def)
  have const: "treated_as_constant (X_train_final r) a"
    by (simp add: treated_as_constant_def var zero_variance_is_constant)
  have wt: "has_width 5 (X_train_final r)"
    using main_prepare_data_width(1)[OF perm sh(2) r] .
  have "X_test_scaled r ! 0 ! a = (X_test r ! 0 ! a - 0) / 1"
    using transform_rule[OF d(2) wt a5 d(5), of 0] by (simp add: te mean const)
  moreover have "X_test r ! 0 ! a = 1" using a5 by (simp add: te one_hot_table_entry)
  ultimately show ?thesis using r a5 te mean std by auto
qed


section \<open>Properties of the training loop\<close>

lemma batch_sampler_Nil: "batch_sampler B [] = []"
  by (simp add: batch_sampler.simps[of B "[]"])

lemma batch_sampler_zero: "batch_sampler 0 xs = []"
  by (simp add: batch_sampler.simps[of 0 xs])

lemma batch_sampler_step:
  "0 < B \<Longrightarrow> xs \<noteq> [] \<Longrightarrow> batch_sampler B xs = take B xs # batch_sampler B (drop B xs)"
  by (simp add: batch_sampler.simps[of B xs])

lemma batch_sampler_concat: "0 < B \<Longrightarrow> concat (batch_sampler B xs) = xs"
proof (induction B xs rule: batch_sampler.induct)
  case (1 B xs)
  show ?case
  proof (cases "xs = []")
    case True
    then show ?thesis by (simp add: batch_sampler_Nil)
  next
    case False
    with 1 show ?thesis by (simp add: batch_sampler_step)
  qed
qed

lemma batch_sampler_nonempty: "b \<in> set (batch_sampler B xs) \<Longrightarrow> b \<noteq> []"
proof (induction B xs rule: batch_sampler.induct)
  case (1 B xs)
  show ?case
  proof (cases "B = 0 \<or> xs = []")
    case True
    with 1(2) show ?thesis by (auto simp: batch_sampler_Nil batch_sampler_zero)
  next
    case False
    with 1 show ?thesis by (auto simp: batch_sampler_step)
  qed
qed

lemma batch_sampler_subset: "b \<in> set (batch_sampler B xs) \<Longrightarrow> set b \<subseteq> set xs"
proof (induction B xs rule: batch_sampler.induct)
  case (1 B xs)
  show ?case
  proof (cases "B = 0 \<or> xs = []")
    case True
    with 1(2) show ?thesis by (auto simp: batch_sampler_Nil batch_sampler_zero)
  next
    case False
    with 1(2) have "b = take B xs \<or> b \<in> set (batch_sampler B (drop B xs))"
      by (simp add: batch_sampler_step)
    then show ?thesis
    proof
      assume "b = take B xs"
      then show ?thesis by (simp add: set_take_subset)
    next
      assume "b \<in> set (batch_sampler B (drop B xs))"
      with 1(1) False have "set b \<subseteq> set (drop B xs)" by simp
      then show ?thesis using set_drop_subset by fastforce
    qed
  qed
qed

lemma batch_sampler_length:
  "0 < B \<Longrightarrow> length (batch_sampler B xs) = (length xs + B - 1) div B"
proof (induction B xs rule: batch_sampler.induct)
  case (1 B xs)
  show ?case
  proof (cases "xs = []")
    case True
    with 1(2) show ?thesis by (simp add: batch_sampler_Nil)
  next
    case False
    then have n: "0 < length xs" by simp
    have ih: "length (batch_sampler B (drop B xs)) = (length xs - B + B - 1) div B"
      using 1 False by simp
    have "length (batch_sampler B xs) = Suc ((length xs - B + B - 1) div B)"
      using False 1(2) ih by (simp add: batch_sampler_step)
    also have "(length xs - B + B - 1) div B = (length xs - 1) div B"
    proof (cases "length xs \<le> B")
      case True
      then have "length xs - B + B - 1 < B" "length xs - 1 < B" using n 1(2) by simp_all
      then show ?thesis by simp
    next
      case False
      then have "length xs - B + B - 1 = length xs - 1" by simp
      then show ?thesis by simp
    qed
    also have "Suc ((length xs - 1) div B) = (length xs - 1 + B) div B"
      using 1(2) by simp
    also have "length xs - 1 + B = length xs + B - 1" using n by linarith
    finally show ?thesis .
  qed
qed

lemma len_DataLoader_iter:
  assumes "0 < batch_size dl"
    and "shuffle dl \<longrightarrow> mset (randperm (length (dataset dl))) = mset [0..<length (dataset dl)]"
  shows "length (iter_DataLoader randperm dl) = len_DataLoader dl"
proof (cases "shuffle dl")
  case True
  with assms(2) have "length (randperm (length (dataset dl))) = length (dataset dl)"
    by (simp add: permutation_length)
  with True assms(1) show ?thesis
    by (simp add: iter_DataLoader_def len_DataLoader_def batch_sampler_length safe_indexing_def)
next
  case False
  with assms(1) show ?thesis
    by (simp add: iter_DataLoader_def len_DataLoader_def batch_sampler_length)
qed

lemma validate_loop_sum:
  "map (batch_mse model no_draw no_draw) bs = map Inr losses \<Longrightarrow>
   validate_loop model bs acc = Inr (acc + sum_list losses)"
proof (induction bs arbitrary: losses acc)
  case Nil
  then show ?case by simp
next
  case (Cons b bs)
  obtain bX bY where b: "b = (bX, bY)" by (cases b)
  from Cons.prems obtain l ls where ls: "losses = l # ls"
    and h: "batch_mse model no_draw no_draw b = Inr l"
    and t: "map (batch_mse model no_draw no_draw) bs = map Inr ls"
    by (cases losses) auto
  from h b obtain out where "forward model no_draw no_draw bX = Inr out"
    and "MSELoss (squeeze out) bY = Inr l"
    by (auto simp: batch_mse_def split: sum.splits)
  then show ?case using Cons.IH[OF t, of "acc + l"] by (simp add: b ls add.assoc)
qed

lemma validate_loop_losses:
  "validate_loop model bs acc = Inr r \<Longrightarrow>
   \<exists>losses. map (batch_mse model no_draw no_draw) bs = map Inr losses
          \<and> r = acc + sum_list losses"
proof (induction bs arbitrary: acc)
  case Nil
  then show ?case by simp
next
  case (Cons b bs)
  obtain bX bY where b: "b = (bX, bY)" by (cases b)
  from Cons.prems b obtain out l where f: "forward model no_draw no_draw bX = Inr out"
    and m: "MSELoss (squeeze out) bY = Inr l"
    and r: "validate_loop model bs (acc + l) = Inr r"
    by (auto split: sum.splits)
  from Cons.IH[OF r] obtain ls where
    ls: "map (batch_mse model no_draw no_draw) bs = map Inr ls" "r = acc + l + sum_list ls"
    by blast
  have "batch_mse model no_draw no_draw b = Inr l" using f m b by (simp add: batch_mse_def)
  then have "map (batch_mse model no_draw no_draw) (b # bs) = map Inr (l # ls)"
    using ls(1) by simp
  moreover have "r = acc + sum_list (l # ls)" using ls(2) by simp
  ultimately show ?case by blast
qed

lemma train_loop_losses:
  "train_loop step draws i model opt bs acc = Inr (r, model', opt') \<Longrightarrow>
   \<exists>losses. train_batch_losses step draws i model opt bs = map Inr losses
          \<and> r = acc + sum_list losses"
proof (induction bs arbitrary: i model opt acc)
  case Nil
  then show ?case by simp
next
  case (Cons b bs)
  obtain bX bY where b: "b = (bX, bY)" by (cases b)
  obtain model1 opt1 where s: "step model opt (fst (draws i)) (snd (draws i)) (bX, bY) = (model1, opt1)"
    by (cases "step model opt (fst (draws i)) (snd (draws i)) (bX, bY)")
  from Cons.prems b s obtain out l where
    f: "forward model (fst (draws i)) (snd (draws i)) bX = Inr out"
    and m: "MSELoss (squeeze out) bY = Inr l"
    and r: "train_loop step draws (Suc i) model1 opt1 bs (acc + l) = Inr (r, model', opt')"
    by (auto split: sum.splits)
  from Cons.IH[OF r] obtain ls where
    ls: "train_batch_losses step draws (Suc i) model1 opt1 bs = map Inr ls"
      "r = acc + l + sum_list ls"
    by blast
  have "batch_mse model (fst (draws i)) (snd (draws i)) b = Inr l"
    using f m b by (simp add: batch_mse_def)
  then have "train_batch_losses step draws i model opt (b # bs) = map Inr (l # ls)"
    using ls(1) s b by simp
  moreover have "r = acc + sum_list (l # ls)" using ls(2) by simp
  ultimately show ?case by blast
qed

lemma concat_singletons: "has_width 1 out \<Longrightarrow> concat out = map hd out"
proof (induction out)
  case Nil
  then show ?case by simp
next
  case (Cons r out)
  then have "length r = 1" "has_width 1 out" by (simp_all add: has_width_def)
  then show ?case using Cons.IH by (cases r) simp_all
qed

lemma batch_mse_returns:
  assumes m: "model_shape d model" and w: "has_width d bX" and l: "length bX = length bY"
  shows "\<exists>loss. batch_mse model keep1 keep2 (bX, bY) = Inr loss"
proof -
  from forward_shape[OF m w] obtain out where
    o: "forward model keep1 keep2 bX = Inr out" "length out = length bX" "has_width 1 out"
    by blast
  have "length (squeeze out) = length bY"
    using o(2,3) l by (simp add: squeeze_def concat_singletons)
  then show ?thesis using o(1) by (simp add: batch_mse_def MSELoss_def)
qed

lemma eval_mode_shape: "model_shape d model \<Longrightarrow> model_shape d (eval_mode model)"
  by (simp add: model_shape_def eval_mode_def)

lemma eval_mode_parameters: "parameters (eval_mode model) = parameters model"
  by (simp add: parameters_def eval_mode_def)

lemma iterated_samples:
  assumes "shuffle dl \<longrightarrow> mset (randperm (length (dataset dl))) = mset [0..<length (dataset dl)]"
  shows "mset (if shuffle dl then safe_indexing (dataset dl) (randperm (length (dataset dl)))
               else dataset dl) = mset (dataset dl)"
  using assms by (simp add: safe_indexing_all)

lemma iter_DataLoader_batches:
  assumes p: "shuffle dl \<longrightarrow> mset (randperm (length (dataset dl))) = mset [0..<length (dataset dl)]"
    and b: "b \<in> set (iter_DataLoader randperm dl)"
  shows "\<exists>c. b = collate c \<and> c \<noteq> [] \<and> set c \<subseteq> set (dataset dl)"
proof -
  let ?ds = "if shuffle dl then safe_indexing (dataset dl) (randperm (length (dataset dl)))
             else dataset dl"
  from b obtain c where c: "b = collate c" "c \<in> set (batch_sampler (batch_size dl) ?ds)"
    by (auto simp: iter_DataLoader_def)
  have "mset ?ds = mset (dataset dl)" using p by (rule iterated_samples)
  then have "set ?ds = set (dataset dl)" by (rule mset_eq_setD)
  with batch_sampler_subset[OF c(2)] batch_sampler_nonempty[OF c(2)] c(1) show ?thesis by blast
qed

lemma validate_returns:
  assumes m: "model_shape d model" and B: "0 < batch_size dl" and ne: "dataset dl \<noteq> []"
    and w: "has_width d (map fst (dataset dl))"
    and p: "shuffle dl \<longrightarrow> mset (randperm (length (dataset dl))) = mset [0..<length (dataset dl)]"
  shows "\<exists>loss. fst (validate randperm model dl) = Inr loss"
proof -
  let ?m = "eval_mode model" and ?bs = "iter_DataLoader randperm dl"
  have each: "\<exists>l. batch_mse ?m no_draw no_draw b = Inr l" if "b \<in> set ?bs" for b
  proof -
    from iter_DataLoader_batches[OF p that] obtain c where
      c: "b = collate c" "set c \<subseteq> set (dataset dl)" by blast
    have "has_width d (map fst c)" using w c(2) by (auto simp: has_width_iff)
    from batch_mse_returns[OF eval_mode_shape[OF m] this, of "map snd c"] show ?thesis
      by (simp add: c(1) collate_def)
  qed
  have "\<exists>losses. map (batch_mse ?m no_draw no_draw) bs = map Inr losses"
    if "set bs \<subseteq> set ?bs" for bs
    using that
  proof (induction bs)
    case Nil
    then show ?case by simp
  next
    case (Cons b bs)
    from Cons.prems have "b \<in> set ?bs" "set bs \<subseteq> set ?bs" by simp_all
    from each[OF this(1)] Cons.IH[OF this(2)] obtain l ls where
      "batch_mse ?m no_draw no_draw b = Inr l"
      "map (batch_mse ?m no_draw no_draw) bs = map Inr ls"
      by blast
    then have "map (batch_mse ?m no_draw no_draw) (b # bs) = map Inr (l # ls)" by simp
    then show ?case by blast
  qed
  then obtain losses where "map (batch_mse ?m no_draw no_draw) ?bs = map Inr losses" by blast
  then have v: "validate_loop ?m ?bs 0 = Inr (0 + sum_list losses)" by (rule validate_loop_sum)
  have "0 < length (dataset dl)" using ne by simp
  then have "batch_size dl \<le> length (dataset dl) + batch_size dl - 1" by linarith
  then have "0 < len_DataLoader dl"
    using B by (simp add: len_DataLoader_def div_greater_zero_iff)
  then show ?thesis using v by (simp add: validate_def Let_def)
qed

lemma validate_model: "snd (validate randperm model dl) = eval_mode model"
  by (simp add: validate_def Let_def)

lemma epoch_body_Inr:
  assumes "epoch_body step draws randperm_train randperm_val train_loader val_loader
             (model, opt, train_losses, val_losses) = Inr (model', opt', train_losses', val_losses')"
  shows "\<exists>train_loss model1 val_loss.
           train_epoch step draws randperm_train model opt train_loader
             = Inr (train_loss, model1, opt')
         \<and> validate randperm_val model1 val_loader = (Inr val_loss, model')
         \<and> train_losses' = train_losses @ [train_loss]
         \<and> val_losses' = val_losses @ [val_loss]"
  using assms by (auto simp: epoch_body_def split: sum.splits prod.splits)

text \<open>
  Claim C7. \<open>validate\<close> leaves the model as it was except for the mode flag, which it
  sets to evaluation: the weight and bias tensors of the four linear layers are
  unchanged, whether it returns or raises. For a model with the constructor's shapes and
  a dataloader over a non-empty dataset whose rows have the model's input dimension it
  returns a loss value. In one turn of the training loop the parameters after the turn
  are those that \<open>train_epoch\<close> left, so only the train phase changes them.
\<close>

theorem validate_leaves_parameters_unchanged:
  "snd (validate randperm model dl) = eval_mode model
   \<and> parameters (snd (validate randperm model dl)) = parameters model
   \<and> (model_shape d model \<and> 0 < batch_size dl \<and> dataset dl \<noteq> []
        \<and> has_width d (map fst (dataset dl))
        \<and> (shuffle dl \<longrightarrow> mset (randperm (length (dataset dl))) = mset [0..<length (dataset dl)])
      \<longrightarrow> (\<exists>loss. fst (validate randperm model dl) = Inr loss))
   \<and> (\<forall>step draws randperm_train train_loader (opt :: 'o) train_losses val_losses
          model' opt' train_losses' val_losses'.
        epoch_body step draws randperm_train randperm train_loader dl
            (model, opt, train_losses, val_losses)
          = Inr (model', opt', train_losses', val_losses')
        \<longrightarrow> (\<exists>train_loss model1.
               train_epoch step draws randperm_train model opt train_loader
                 = Inr (train_loss, model1, opt')
             \<and> parameters model' = parameters model1))"
proof -
  have 1: "snd (validate randperm model dl) = eval_mode model" by (rule validate_model)
  have 2: "parameters (snd (validate randperm model dl)) = parameters model"
    by (simp add: validate_model eval_mode_parameters)
  have 3: "model_shape d model \<and> 0 < batch_size dl \<and> dataset dl \<noteq> []
        \<and> has_width d (map fst (dataset dl))
        \<and> (shuffle dl \<longrightarrow> mset (randperm (length (dataset dl))) = mset [0..<length (dataset dl)])
      \<longrightarrow> (\<exists>loss. fst (validate randperm model dl) = Inr loss)"
    using validate_returns[of d model dl randperm] by blast
  have 4: "\<exists>train_loss model1.
               train_epoch step draws randperm_train model opt train_loader
                 = Inr (train_loss, model1, opt')
             \<and> parameters model' = parameters model1"
    if "epoch_body step draws randperm_train randperm train_loader dl
            (model, opt, train_losses, val_losses)
          = Inr (model', opt', train_losses', val_losses')"
    for step draws randperm_train train_loader and opt :: 'o
      and train_losses val_losses model' opt' train_losses' val_losses'
  proof -
    from epoch_body_Inr[OF that] obtain train_loss model1 val_loss where
      t: "train_epoch step draws randperm_train model opt train_loader
                 = Inr (train_loss, model1, opt')"
      and v: "validate randperm model1 dl = (Inr val_loss, model')"
      by blast
    from v have "model' = snd (validate randperm model1 dl)" by simp
    then have "parameters model' = parameters model1"
      by (simp add: validate_model eval_mode_parameters)
    with t show ?thesis by blast
  qed
  from 1 2 3 4 show ?thesis by blast
qed

theorem validate_leaves_parameters_unchanged_witness:
  "(\<exists>loss. fst (validate (\<lambda>n. [0..<n]) (WineQualityNet_init (\<lambda>l i j. 0) (\<lambda>l i. 0) 1)
                  \<lparr>dataset = [([1], 2), ([3], 4), ([5], 6)], batch_size = 2, shuffle = False\<rparr>)
            = Inr loss)
   \<and> parameters (snd (validate (\<lambda>n. [0..<n]) (WineQualityNet_init (\<lambda>l i j. 0) (\<lambda>l i. 0) 1)
                  \<lparr>dataset = [([1], 2), ([3], 4), ([5], 6)], batch_size = 2, shuffle = False\<rparr>))
       = parameters (WineQualityNet_init (\<lambda>l i j. 0) (\<lambda>l i. 0) 1)"
proof -
  let ?dl = "\<lparr>dataset = [([1], 2), ([3], 4), ([5], 6)], batch_size = 2, shuffle = False\<rparr>"
  have h: "model_shape 1 (WineQualityNet_init (\<lambda>l i j. 0) (\<lambda>l i. 0) 1) \<and> 0 < batch_size ?dl
        \<and> dataset ?dl \<noteq> [] \<and> has_width 1 (map fst (dataset ?dl))
        \<and> (shuffle ?dl \<longrightarrow> mset [0..<length (dataset ?dl)] = mset [0..<length (dataset ?dl)])"
    by (simp add: WineQualityNet_init_shape has_width_def)
  from validate_leaves_parameters_unchanged
         [of "\<lambda>n. [0..<n]" "WineQualityNet_init (\<lambda>l i j. 0) (\<lambda>l i. 0) 1" ?dl 1] h
  show ?thesis by blast
qed


section \<open>Termination of the train phase with a result\<close>

text \<open>
  The train phase returns as well, for an optimizer step that keeps the shapes of the
  parameters (as every PyTorch optimizer does): the loss it reports is not the loss of a
  computation that always raises.
\<close>

lemma DataLoader_init_batch_size:
  "DataLoader_init samples B shuffled = Inr dl \<Longrightarrow>
   0 < batch_size dl \<and> dataset dl = samples \<and> shuffle dl = shuffled"
  by (auto simp: DataLoader_init_def split: if_splits)

lemma train_mode_shape: "model_shape d model \<Longrightarrow> model_shape d (train_mode model)"
  by (simp add: model_shape_def train_mode_def)

lemma train_loop_returns:
  assumes keeps: "\<And>m opt k1 k2 b. model_shape d m \<Longrightarrow> model_shape d (fst (step m opt k1 k2 b))"
    and m: "model_shape d model"
    and bs: "\<forall>b\<in>set bs. has_width d (fst b) \<and> length (fst b) = length (snd b)"
  shows "\<exists>r model' opt'. train_loop step draws i model opt bs acc = Inr (r, model', opt')"
  using m bs
proof (induction bs arbitrary: i model opt acc)
  case Nil
  then show ?case by simp
next
  case (Cons b bs)
  obtain bX bY where b: "b = (bX, bY)" by (cases b)
  from Cons.prems(2) b have w: "has_width d bX" and l: "length bX = length bY" by simp_all
  from batch_mse_returns[OF Cons.prems(1) w l] obtain loss where
    "batch_mse model (fst (draws i)) (snd (draws i)) (bX, bY) = Inr loss"
    by blast
  then obtain out where f: "forward model (fst (draws i)) (snd (draws i)) bX = Inr out"
    and q: "MSELoss (squeeze out) bY = Inr loss"
    by (auto simp: batch_mse_def split: sum.splits)
  obtain model1 opt1 where
    s: "step model opt (fst (draws i)) (snd (draws i)) (bX, bY) = (model1, opt1)"
    by (cases "step model opt (fst (draws i)) (snd (draws i)) (bX, bY)")
  have "model_shape d model1"
    using keeps[OF Cons.prems(1), of opt "fst (draws i)" "snd (draws i)" "(bX, bY)"] s by simp
  moreover from Cons.prems(2)
  have "\<forall>b\<in>set bs. has_width d (fst b) \<and> length (fst b) = length (snd b)" by simp
  ultimately obtain r model' opt' where
    "train_loop step draws (Suc i) model1 opt1 bs (acc + loss) = Inr (r, model', opt')"
    using Cons.IH by blast
  then show ?case using f q s b by simp
qed

lemma train_epoch_returns:
  assumes keeps: "\<And>m opt k1 k2 b. model_shape d m \<Longrightarrow> model_shape d (fst (step m opt k1 k2 b))"
    and m: "model_shape d model" and B: "0 < batch_size dl" and ne: "dataset dl \<noteq> []"
    and w: "has_width d (map fst (dataset dl))"
    and p: "shuffle dl \<longrightarrow> mset (randperm (length (dataset dl))) = mset [0..<length (dataset dl)]"
  shows "\<exists>loss model' opt'. train_epoch step draws randperm model opt dl = Inr (loss, model', opt')"
proof -
  have "has_width d (fst b) \<and> length (fst b) = length (snd b)"
    if "b \<in> set (iter_DataLoader randperm dl)" for b
  proof -
    from iter_DataLoader_batches[OF p that] obtain c where
      c: "b = collate c" "set c \<subseteq> set (dataset dl)" by blast
    have "has_width d (map fst c)" using w c(2) by (auto simp: has_width_iff)
    then show ?thesis by (simp add: c(1) collate_def)
  qed
  then have "\<forall>b\<in>set (iter_DataLoader randperm dl).
               has_width d (fst b) \<and> length (fst b) = length (snd b)"
    by blast
  from train_loop_returns[of d step "train_mode model" "iter_DataLoader randperm dl" draws 0 opt 0,
      OF keeps train_mode_shape[OF m] this]
  obtain r model' opt' where
    t: "train_loop step draws 0 (train_mode model) opt (iter_DataLoader randperm dl) 0
          = Inr (r, model', opt')"
    by blast
  have "0 < length (dataset dl)" using ne by simp
  then have "batch_size dl \<le> length (dataset dl) + batch_size dl - 1" by linarith
  then have "0 < len_DataLoader dl"
    using B by (simp add: len_DataLoader_def div_greater_zero_iff)
  with t show ?thesis by (simp add: train_epoch_def)
qed


section \<open>Properties of the epoch loss\<close>

lemma forward_eval_rows:
  assumes t: "\<not> training model" and m: "model_shape d model" and w: "has_width d X"
  shows "forward model keep1 keep2 X = Inr (map (predict_row model) X)"
proof -
  from m have s: "Linear_shape d 64 (fc1 model)" "Linear_shape 64 32 (fc2 model)"
    "Linear_shape 32 16 (fc3 model)" "Linear_shape 16 1 (fc4 model)"
    by (simp_all add: model_shape_def)
  let ?a1 = "map (linear_row (fc1 model)) X"
  let ?a2 = "map (linear_row (fc2 model)) (relu ?a1)"
  let ?a3 = "map (linear_row (fc3 model)) (relu ?a2)"
  let ?a4 = "map (linear_row (fc4 model)) (relu ?a3)"
  have 1: "Linear_forward (fc1 model) X = Inr ?a1" "has_width 64 ?a1"
    using Linear_forward_shape[OF s(1) w] by simp_all
  have 2: "Linear_forward (fc2 model) (relu ?a1) = Inr ?a2" "has_width 32 ?a2"
    using Linear_forward_shape[OF s(2) relu_shape(2)[OF 1(2)]] by simp_all
  have 3: "Linear_forward (fc3 model) (relu ?a2) = Inr ?a3" "has_width 16 ?a3"
    using Linear_forward_shape[OF s(3) relu_shape(2)[OF 2(2)]] by simp_all
  have 4: "Linear_forward (fc4 model) (relu ?a3) = Inr ?a4"
    using Linear_forward_shape[OF s(4) relu_shape(2)[OF 3(2)]] by simp
  have "forward model keep1 keep2 X = Inr ?a4"
    unfolding forward_def 1(1) sum.case Let_def using t
    by (simp add: Dropout_forward_eval 2(1) 3(1) 4)
  also have "?a4 = map (predict_row model) X"
    by (simp add: relu_def predict_row_def comp_def)
  finally show ?thesis .
qed

lemma predict_row_length: "model_shape d model \<Longrightarrow> length (predict_row model x) = 1"
  by (simp add: model_shape_def Linear_shape_def predict_row_def linear_row_def)

lemma map2_fst_snd:
  "map2 h (map f (map fst c)) (map snd c) = map (\<lambda>s. h (f (fst s)) (snd s)) c"
  by (induction c) simp_all

lemma batch_mse_eval:
  assumes t: "\<not> training model" and m: "model_shape d model" and w: "has_width d (map fst c)"
  shows "batch_mse model keep1 keep2 (collate c)
           = Inr (sum_list (map (sample_error model) c) / real (length c))"
proof -
  let ?out = "map (predict_row model) (map fst c)"
  have f: "forward model keep1 keep2 (map fst c) = Inr ?out"
    using t m w by (rule forward_eval_rows)
  have "has_width 1 ?out" using predict_row_length[OF m] by (simp add: has_width_iff)
  then have q: "squeeze ?out = map (\<lambda>x. hd (predict_row model x)) (map fst c)"
    by (simp add: squeeze_def concat_singletons comp_def)
  have "MSELoss (squeeze ?out) (map snd c)
          = Inr (sum_list (map (sample_error model) c) / real (length c))"
    unfolding q MSELoss_def map2_fst_snd by (simp add: sample_error_def[abs_def])
  then show ?thesis by (simp add: batch_mse_def collate_def f)
qed

lemma partition_mse_eval:
  assumes "\<not> training model" and "model_shape d model" and "has_width d (map fst samples)"
  shows "partition_mse model samples
           = Inr (sum_list (map (sample_error model) samples) / real (length samples))"
  unfolding partition_mse_def using assms by (rule batch_mse_eval)

lemma map_Inr_eq: "map Inr xs = map Inr ys \<Longrightarrow> xs = ys"
  by (simp add: inj_map_eq_map)

lemma validate_unweighted_mean:
  assumes B: "0 < batch_size dl"
    and p: "shuffle dl \<longrightarrow> mset (randperm (length (dataset dl))) = mset [0..<length (dataset dl)]"
    and v: "fst (validate randperm model dl) = Inr loss"
  shows "\<exists>losses. map (batch_mse (eval_mode model) no_draw no_draw) (iter_DataLoader randperm dl)
                    = map Inr losses
               \<and> length losses = len_DataLoader dl \<and> 0 < length losses
               \<and> loss = sum_list losses / real (length losses)"
proof -
  from v obtain acc where a: "validate_loop (eval_mode model) (iter_DataLoader randperm dl) 0 = Inr acc"
    and n: "len_DataLoader dl \<noteq> 0" and l: "loss = acc / real (len_DataLoader dl)"
    by (auto simp: validate_def Let_def split: sum.splits if_splits)
  from validate_loop_losses[OF a] obtain losses where
    ls: "map (batch_mse (eval_mode model) no_draw no_draw) (iter_DataLoader randperm dl)
           = map Inr losses" "acc = sum_list losses"
    by auto
  from ls(1) have "length (iter_DataLoader randperm dl) = length losses"
    by (metis length_map)
  then have "length losses = len_DataLoader dl" using len_DataLoader_iter[of dl randperm, OF B p] by simp
  with ls l n show ?thesis by auto
qed

lemma train_unweighted_mean:
  assumes B: "0 < batch_size dl"
    and p: "shuffle dl \<longrightarrow> mset (randperm (length (dataset dl))) = mset [0..<length (dataset dl)]"
    and v: "train_epoch step draws randperm model opt dl = Inr (loss, model', opt')"
  shows "\<exists>losses. train_batch_losses step draws 0 (train_mode model) opt (iter_DataLoader randperm dl)
                    = map Inr losses
               \<and> length losses = len_DataLoader dl \<and> 0 < length losses
               \<and> loss = sum_list losses / real (length losses)"
proof -
  from v obtain acc where
    a: "train_loop step draws 0 (train_mode model) opt (iter_DataLoader randperm dl) 0
          = Inr (acc, model', opt')"
    and n: "len_DataLoader dl \<noteq> 0" and l: "loss = acc / real (len_DataLoader dl)"
    by (auto simp: train_epoch_def split: sum.splits if_splits)
  from train_loop_losses[OF a] obtain losses where
    ls: "train_batch_losses step draws 0 (train_mode model) opt (iter_DataLoader randperm dl)
           = map Inr losses" "acc = sum_list losses"
    by auto
  have "length (train_batch_losses step draws i m opt bs) = length bs" for i m bs and opt :: 'a
    by (induction bs arbitrary: i m opt) (auto split: prod.splits)
  with ls(1) have "length (iter_DataLoader randperm dl) = length losses"
    by (metis length_map)
  then have "length losses = len_DataLoader dl" using len_DataLoader_iter[of dl randperm, OF B p] by simp
  with ls l n show ?thesis by auto
qed

lemma sum_list_chunks:
  "sum_list (map (\<lambda>c. sum_list (map f c)) cs) = sum_list (map f (concat cs))"
  by (induction cs) simp_all

lemma sum_list_const_nat: "sum_list (map (\<lambda>c. k) cs) = length cs * (k::nat)"
  by (induction cs) simp_all

lemma sum_list_mset_cong:
  fixes f :: "'a \<Rightarrow> real"
  shows "mset xs = mset ys \<Longrightarrow> sum_list (map f xs) = sum_list (map f ys)"
  by (metis mset_map sum_mset_sum_list)

lemma validate_equal_batches:
  assumes B: "0 < batch_size dl"
    and p: "shuffle dl \<longrightarrow> mset (randperm (length (dataset dl))) = mset [0..<length (dataset dl)]"
    and m: "model_shape d model" and w: "has_width d (map fst (dataset dl))"
    and v: "fst (validate randperm model dl) = Inr loss"
    and eq: "\<forall>b\<in>set (iter_DataLoader randperm dl). length (fst b) = k"
  shows "partition_mse (eval_mode model) (dataset dl) = Inr loss"
proof -
  let ?m = "eval_mode model"
  let ?ds = "if shuffle dl then safe_indexing (dataset dl) (randperm (length (dataset dl)))
             else dataset dl"
  let ?cs = "batch_sampler (batch_size dl) ?ds"
  let ?se = "sample_error ?m"
  have it: "iter_DataLoader randperm dl = map collate ?cs" by (simp add: iter_DataLoader_def)
  have ms: "mset ?ds = mset (dataset dl)" using p by (rule iterated_samples)
  have t: "\<not> training ?m" by (simp add: eval_mode_def)
  note sh = eval_mode_shape[OF m]
  have chunk: "batch_mse ?m no_draw no_draw (collate c) = Inr (sum_list (map ?se c) / real k)
               \<and> length c = k \<and> c \<noteq> []"
    if c: "c \<in> set ?cs" for c
  proof -
    have "set c \<subseteq> set ?ds" using c by (rule batch_sampler_subset)
    also have "set ?ds = set (dataset dl)" using ms by (rule mset_eq_setD)
    finally have "has_width d (map fst c)" using w by (auto simp: has_width_iff)
    from batch_mse_eval[OF t sh this]
    have a: "batch_mse ?m no_draw no_draw (collate c)
               = Inr (sum_list (map ?se c) / real (length c))" .
    have "collate c \<in> set (iter_DataLoader randperm dl)" using c unfolding it by simp
    with eq have "length (fst (collate c)) = k" by blast
    then have "length c = k" by (simp add: collate_def)
    with a batch_sampler_nonempty[OF c] show ?thesis by simp
  qed
  from validate_unweighted_mean[OF B p v] obtain losses where
    ls: "map (batch_mse ?m no_draw no_draw) (iter_DataLoader randperm dl) = map Inr losses"
    and pos: "0 < length losses"
    and l: "loss = sum_list losses / real (length losses)"
    by blast
  have "map Inr losses = map (\<lambda>c. batch_mse ?m no_draw no_draw (collate c)) ?cs"
    using ls unfolding it by (simp add: comp_def)
  also have "\<dots> = map (\<lambda>c. Inr (sum_list (map ?se c) / real k)) ?cs"
    using chunk by (intro map_cong) simp_all
  also have "\<dots> = map Inr (map (\<lambda>c. sum_list (map ?se c) / real k) ?cs)"
    by (simp add: comp_def)
  finally have losses: "losses = map (\<lambda>c. sum_list (map ?se c) / real k) ?cs"
    by (rule map_Inr_eq)
  then have nb: "length losses = length ?cs" by simp
  with pos obtain c0 where "c0 \<in> set ?cs" by (cases ?cs) auto
  with chunk have k: "0 < k" by fastforce
  have cc: "concat ?cs = ?ds" using B by (rule batch_sampler_concat)
  have "sum_list losses = sum_list (map (\<lambda>c. sum_list (map ?se c)) ?cs) / real k"
    unfolding losses by (simp add: sum_list_divide_const)
  also have "sum_list (map (\<lambda>c. sum_list (map ?se c)) ?cs) = sum_list (map ?se ?ds)"
    unfolding sum_list_chunks cc ..
  also have "\<dots> = sum_list (map ?se (dataset dl))" using ms by (rule sum_list_mset_cong)
  finally have sl: "sum_list losses = sum_list (map ?se (dataset dl)) / real k" .
  have "length ?ds = length (concat ?cs)" by (simp only: cc)
  also have "\<dots> = sum_list (map length ?cs)" by (rule length_concat)
  also have "map length ?cs = map (\<lambda>c. k) ?cs" using chunk by (intro map_cong) simp_all
  also have "sum_list (map (\<lambda>c. k) ?cs) = length ?cs * k" by (rule sum_list_const_nat)
  finally have lc: "length ?ds = length ?cs * k" .
  have ld: "length ?ds = length (dataset dl)" using ms by (rule mset_eq_length)
  have "length (dataset dl) = length losses * k"
    using lc unfolding ld nb[symmetric] .
  then have n: "real (length (dataset dl)) = real (length losses) * real k"
    by (simp only: of_nat_mult)
  have "loss = sum_list (map ?se (dataset dl)) / real (length (dataset dl))"
    unfolding l sl n using k pos by (simp add: field_simps)
  then show ?thesis using partition_mse_eval[OF t sh w] by simp
qed

lemma dot_zeros: "dot (map (\<lambda>j. 0) js) x = 0"
proof -
  have "sum_list (map2 (\<lambda>a b. a * b) (map (\<lambda>j. 0::real) js) x) = 0"
  proof (induction js arbitrary: x)
    case Nil
    then show ?case by simp
  next
    case (Cons j js)
    then show ?case by (cases x) simp_all
  qed
  then show ?thesis by (simp add: dot_def)
qed

lemma linear_row_zero:
  "linear_row (nn_Linear (\<lambda>i j. 0) (\<lambda>i. 0) n_in n_out) x = map (\<lambda>i. 0) [0..<n_out]"
  by (simp add: linear_row_def nn_Linear_def map2_map_map dot_zeros)

lemma predict_row_zero:
  "predict_row (eval_mode (WineQualityNet_init (\<lambda>l i j. 0) (\<lambda>l i. 0) d)) x = [0]"
  by (simp add: predict_row_def eval_mode_def WineQualityNet_init_def linear_row_zero)

lemma unequal_batches_example:
  "fst (validate (\<lambda>n. [0..<n]) (WineQualityNet_init (\<lambda>l i j. 0) (\<lambda>l i. 0) 1)
          \<lparr>dataset = [([1], 0), ([2], 0), ([3], 3)], batch_size = 2, shuffle = False\<rparr>)
     = Inr (9 / 2)
   \<and> partition_mse (eval_mode (WineQualityNet_init (\<lambda>l i j. 0) (\<lambda>l i. 0) 1))
          [([1], 0), ([2], 0), ([3], 3)] = Inr 3
   \<and> map (\<lambda>b. length (fst b))
         (iter_DataLoader (\<lambda>n. [0..<n])
            \<lparr>dataset = [([1], 0), ([2], 0), ([3], 3)], batch_size = 2, shuffle = False\<rparr>)
       = [2, 1]"
proof -
  let ?M = "eval_mode (WineQualityNet_init (\<lambda>l i j. 0) (\<lambda>l i. 0) 1)"
  let ?dl = "\<lparr>dataset = [([1], 0), ([2], 0), ([3::real], 3::real)], batch_size = 2, shuffle = False\<rparr>"
  have t: "\<not> training ?M" by (simp add: eval_mode_def)
  have sh: "model_shape 1 ?M" by (rule eval_mode_shape) (rule WineQualityNet_init_shape)
  have it: "iter_DataLoader (\<lambda>n. [0..<n]) ?dl = [collate [([1], 0), ([2], 0)], collate [([3], 3)]]"
    by (simp add: iter_DataLoader_def batch_sampler_step batch_sampler_Nil)
  have b1: "batch_mse ?M no_draw no_draw (collate [([1], 0), ([2], 0)]) = Inr 0"
    using batch_mse_eval[OF t sh, of "[([1], 0), ([2], 0)]" no_draw no_draw]
    by (simp add: has_width_def sample_error_def predict_row_zero)
  have b2: "batch_mse ?M no_draw no_draw (collate [([3], 3)]) = Inr 9"
    using batch_mse_eval[OF t sh, of "[([3], 3)]" no_draw no_draw]
    by (simp add: has_width_def sample_error_def predict_row_zero)
  have "validate_loop ?M (iter_DataLoader (\<lambda>n. [0..<n]) ?dl) 0 = Inr (0 + sum_list [0, 9])"
    by (rule validate_loop_sum) (simp only: it list.map b1 b2)
  then have 1: "fst (validate (\<lambda>n. [0..<n]) (WineQualityNet_init (\<lambda>l i j. 0) (\<lambda>l i. 0) 1) ?dl)
                  = Inr (9 / 2)"
    by (simp add: validate_def Let_def len_DataLoader_def)
  have 2: "partition_mse ?M [([1], 0), ([2], 0), ([3], 3)] = Inr 3"
    using partition_mse_eval[OF t sh, of "[([1], 0), ([2], 0), ([3], 3)]"]
    by (simp add: has_width_def sample_error_def predict_row_zero)
  have 3: "map (\<lambda>b. length (fst b)) (iter_DataLoader (\<lambda>n. [0..<n]) ?dl) = [2, 1]"
    by (simp add: it collate_def)
  from 1 2 3 show ?thesis by blast
qed

lemma batch_sampler_sizes:
  "0 < B \<Longrightarrow>
   map length (batch_sampler B xs)
     = replicate (length xs div B) B @ (if length xs mod B = 0 then [] else [length xs mod B])"
proof (induction B xs rule: batch_sampler.induct)
  case (1 B xs)
  show ?case
  proof (cases "xs = []")
    case True
    then show ?thesis by (simp add: batch_sampler_Nil)
  next
    case False
    note ih = 1(1)[OF _ 1(2)]
    show ?thesis
    proof (cases "B \<le> length xs")
      case True
      then have d: "length xs div B = Suc ((length xs - B) div B)"
        "(length xs - B) mod B = length xs mod B"
        using 1(2) by (simp_all add: le_div_geq le_mod_geq)
      have "map length (batch_sampler B xs)
              = B # map length (batch_sampler B (drop B xs))"
        using False 1(2) True by (simp add: batch_sampler_step)
      also have "map length (batch_sampler B (drop B xs))
              = replicate ((length xs - B) div B) B
                  @ (if (length xs - B) mod B = 0 then [] else [(length xs - B) mod B])"
        using ih False 1(2) by simp
      finally show ?thesis by (simp add: d)
    next
      case False2: False
      then have s: "length xs div B = 0" "length xs mod B = length xs" by simp_all
      have "map length (batch_sampler B xs) = [length xs]"
        using False False2 1(2) by (simp add: batch_sampler_step batch_sampler_Nil)
      then show ?thesis using False by (simp add: s)
    qed
  qed
qed

lemma iter_DataLoader_sizes:
  assumes "0 < batch_size dl"
    and "shuffle dl \<longrightarrow> mset (randperm (length (dataset dl))) = mset [0..<length (dataset dl)]"
  shows "map (\<lambda>b. length (fst b)) (iter_DataLoader randperm dl)
           = replicate (length (dataset dl) div batch_size dl) (batch_size dl)
               @ (if length (dataset dl) mod batch_size dl = 0 then []
                  else [length (dataset dl) mod batch_size dl])"
proof -
  let ?ds = "if shuffle dl then safe_indexing (dataset dl) (randperm (length (dataset dl)))
             else dataset dl"
  have "mset ?ds = mset (dataset dl)" using assms(2) by (rule iterated_samples)
  then have l: "length ?ds = length (dataset dl)" by (rule mset_eq_length)
  have "map (\<lambda>b. length (fst b)) (iter_DataLoader randperm dl)
          = map length (batch_sampler (batch_size dl) ?ds)"
    by (simp add: iter_DataLoader_def collate_def comp_def)
  then show ?thesis unfolding batch_sampler_sizes[OF assms(1)] l .
qed

lemma Linear_forward_zero:
  assumes "has_width n_in X"
  shows "Linear_forward (nn_Linear (\<lambda>i j. 0) (\<lambda>i. 0) n_in n_out) X
           = Inr (replicate (length X) (replicate n_out 0))"
proof -
  have "in_features (nn_Linear (\<lambda>i j. 0) (\<lambda>i. 0) n_in n_out) = n_in"
    by (simp add: nn_Linear_def)
  moreover have "linear_row (nn_Linear (\<lambda>i j. 0) (\<lambda>i. 0) n_in n_out) = (\<lambda>x. replicate n_out 0)"
    by (rule ext) (simp add: linear_row_zero map_replicate_const)
  ultimately show ?thesis
    using assms by (simp add: Linear_forward_def map_replicate_const)
qed

lemma zeros_width: "has_width n (replicate k (replicate n 0))"
  by (simp add: has_width_iff)

lemma relu_zeros: "relu (replicate k (replicate n 0)) = replicate k (replicate n 0)"
  by (simp add: relu_def)

lemma Dropout_forward_zeros:
  "Dropout_forward p t keep (replicate k (replicate n 0)) = replicate k (replicate n 0)"
proof (cases t)
  case False
  then show ?thesis by (simp add: Dropout_forward_def)
next
  case True
  let ?Z = "replicate k (replicate n (0::real))"
  have "map (\<lambda>i. map (\<lambda>j. if keep i j then ?Z ! i ! j / (1 - p) else 0) [0..<length (?Z ! i)])
          [0..<length ?Z] = ?Z"
    by (rule nth_equalityI) (auto intro: nth_equalityI)
  with True show ?thesis by (simp add: Dropout_forward_def)
qed

lemma forward_zero_model:
  assumes w: "has_width d X"
  shows "forward ((WineQualityNet_init (\<lambda>l i j. 0) (\<lambda>l i. 0) d)\<lparr>training := t\<rparr>) keep1 keep2 X
           = Inr (replicate (length X) [0])"
proof -
  let ?M = "(WineQualityNet_init (\<lambda>l i j. 0) (\<lambda>l i. 0) d)\<lparr>training := t\<rparr>"
  have f: "fc1 ?M = nn_Linear (\<lambda>i j. 0) (\<lambda>i. 0) d 64" "fc2 ?M = nn_Linear (\<lambda>i j. 0) (\<lambda>i. 0) 64 32"
    "fc3 ?M = nn_Linear (\<lambda>i j. 0) (\<lambda>i. 0) 32 16" "fc4 ?M = nn_Linear (\<lambda>i j. 0) (\<lambda>i. 0) 16 1"
    by (simp_all add: WineQualityNet_init_def)
  have 1: "Linear_forward (fc1 ?M) X = Inr (replicate (length X) (replicate 64 0))"
    unfolding f using w by (rule Linear_forward_zero)
  have 2: "Linear_forward (fc2 ?M) (replicate (length X) (replicate 64 0))
             = Inr (replicate (length X) (replicate 32 0))"
    unfolding f using Linear_forward_zero[of 64 "replicate (length X) (replicate 64 0)" 32] zeros_width[of 64 "length X"]
    by simp
  have 3: "Linear_forward (fc3 ?M) (replicate (length X) (replicate 32 0))
             = Inr (replicate (length X) (replicate 16 0))"
    unfolding f using Linear_forward_zero[of 32 "replicate (length X) (replicate 32 0)" 16] zeros_width[of 32 "length X"]
    by simp
  have 4: "Linear_forward (fc4 ?M) (replicate (length X) (replicate 16 0))
             = Inr (replicate (length X) [0])"
    unfolding f using Linear_forward_zero[of 16 "replicate (length X) (replicate 16 0)" 1] zeros_width[of 16 "length X"]
    by simp
  show ?thesis
    unfolding forward_def 1 sum.case Let_def relu_zeros Dropout_forward_zeros 2 3 4 ..
qed

lemma forward_zero_model_train:
  "has_width d X \<Longrightarrow>
   forward (train_mode (WineQualityNet_init (\<lambda>l i j. 0) (\<lambda>l i. 0) d)) keep1 keep2 X
     = Inr (replicate (length X) [0])"
  unfolding train_mode_def by (rule forward_zero_model)

lemma train_epoch_example:
  "train_epoch (\<lambda>m (opt :: unit) keep1 keep2 b. (m, opt)) (\<lambda>i. (no_draw, no_draw)) (\<lambda>n. [0..<n])
     (WineQualityNet_init (\<lambda>l i j. 0) (\<lambda>l i. 0) 1) ()
     \<lparr>dataset = [([1], 0), ([2], 0), ([3], 3)], batch_size = 2, shuffle = False\<rparr>
   = Inr (9 / 2, train_mode (WineQualityNet_init (\<lambda>l i j. 0) (\<lambda>l i. 0) 1), ())"
proof -
  let ?dl = "\<lparr>dataset = [([1], 0), ([2], 0), ([3::real], 3::real)], batch_size = 2, shuffle = False\<rparr>"
  have it: "iter_DataLoader (\<lambda>n. [0..<n]) ?dl = [([[1], [2]], [0, 0]), ([[3]], [3])]"
    by (simp add: iter_DataLoader_def batch_sampler_step batch_sampler_Nil collate_def)
  show ?thesis
    unfolding train_epoch_def it
    by (simp add: forward_zero_model_train has_width_def squeeze_def MSELoss_def
        len_DataLoader_def)
qed


text \<open>
  Claim C10. For a model with the constructor's shapes, an optimizer step that keeps
  them, and a dataloader with any batch size over a non-empty partition whose rows have
  the model's input dimension, \<open>validate\<close> and \<open>train_epoch\<close> both return a loss, and the
  loss is the sum of the per-batch mean squared errors divided by the number of batches,
  \<open>len(dataloader)\<close>: an unweighted mean over the batches (in the train phase each batch
  loss is computed with the parameters and the dropout draw the model has when the batch
  is reached). The batches are \<open>n div B\<close> full ones followed, when \<open>B\<close> does not divide
  \<open>n\<close>, by one of \<open>n mod B\<close> samples, which counts as much as a full one. Whenever every
  batch has the same size, the validation loss is the mean squared error over all
  samples of the partition. When the batches are not of one size the two can differ: for
  three samples in batches of sizes 2 and 1 with squared errors 0, 0 and 9 the epoch
  loss is 9/2 and the mean over the samples is 3.
\<close>

theorem epoch_loss_is_unweighted_batch_mean:
  assumes B: "0 < batch_size dl"
    and p: "shuffle dl \<longrightarrow> mset (randperm (length (dataset dl))) = mset [0..<length (dataset dl)]"
    and m: "model_shape d model"
    and ne: "dataset dl \<noteq> []"
    and w: "has_width d (map fst (dataset dl))"
    and keeps: "\<forall>m opt k1 k2 b. model_shape d m \<longrightarrow> model_shape d (fst (step m opt k1 k2 b))"
  shows "(\<exists>loss losses.
            fst (validate randperm model dl) = Inr loss
          \<and> map (batch_mse (eval_mode model) no_draw no_draw) (iter_DataLoader randperm dl)
              = map Inr losses
          \<and> length losses = len_DataLoader dl
          \<and> loss = sum_list losses / real (len_DataLoader dl)
          \<and> (\<forall>k. (\<forall>b\<in>set (iter_DataLoader randperm dl). length (fst b) = k)
                \<longrightarrow> partition_mse (eval_mode model) (dataset dl) = Inr loss))
       \<and> (\<exists>loss model' opt' losses.
            train_epoch step draws randperm model opt dl = Inr (loss, model', opt')
          \<and> train_batch_losses step draws 0 (train_mode model) opt (iter_DataLoader randperm dl)
              = map Inr losses
          \<and> length losses = len_DataLoader dl
          \<and> loss = sum_list losses / real (len_DataLoader dl))
       \<and> len_DataLoader dl = length (iter_DataLoader randperm dl)
       \<and> map (\<lambda>b. length (fst b)) (iter_DataLoader randperm dl)
           = replicate (length (dataset dl) div batch_size dl) (batch_size dl)
               @ (if length (dataset dl) mod batch_size dl = 0 then []
                  else [length (dataset dl) mod batch_size dl])
       \<and> fst (validate (\<lambda>n. [0..<n]) (WineQualityNet_init (\<lambda>l i j. 0) (\<lambda>l i. 0) 1)
                \<lparr>dataset = [([1], 0), ([2], 0), ([3], 3)], batch_size = 2, shuffle = False\<rparr>)
           = Inr (9 / 2)
       \<and> partition_mse (eval_mode (WineQualityNet_init (\<lambda>l i j. 0) (\<lambda>l i. 0) 1))
                [([1], 0), ([2], 0), ([3], 3)] = Inr 3
       \<and> map (\<lambda>b. length (fst b))
             (iter_DataLoader (\<lambda>n. [0..<n])
                \<lparr>dataset = [([1], 0), ([2], 0), ([3], 3)], batch_size = 2, shuffle = False\<rparr>)
           = [2, 1]"
proof -
  from validate_returns[of d model dl randperm, OF m B ne w p] obtain vl where
    v: "fst (validate randperm model dl) = Inr vl"
    by blast
  from validate_unweighted_mean[of dl randperm model vl, OF B p v] obtain vls where
    vls: "map (batch_mse (eval_mode model) no_draw no_draw) (iter_DataLoader randperm dl)
            = map Inr vls"
      "length vls = len_DataLoader dl" "vl = sum_list vls / real (length vls)"
    by blast
  have ve: "\<forall>k. (\<forall>b\<in>set (iter_DataLoader randperm dl). length (fst b) = k)
              \<longrightarrow> partition_mse (eval_mode model) (dataset dl) = Inr vl"
    using validate_equal_batches[of dl randperm d model vl, OF B p m w v] by blast
  have 1: "\<exists>loss losses.
            fst (validate randperm model dl) = Inr loss
          \<and> map (batch_mse (eval_mode model) no_draw no_draw) (iter_DataLoader randperm dl)
              = map Inr losses
          \<and> length losses = len_DataLoader dl
          \<and> loss = sum_list losses / real (len_DataLoader dl)
          \<and> (\<forall>k. (\<forall>b\<in>set (iter_DataLoader randperm dl). length (fst b) = k)
                \<longrightarrow> partition_mse (eval_mode model) (dataset dl) = Inr loss)"
    using v vls(1) vls(2) vls(3)[unfolded vls(2)] ve by blast
  have k: "model_shape d m \<Longrightarrow> model_shape d (fst (step m opt k1 k2 b))" for m opt k1 k2 b
    using keeps by blast
  from train_epoch_returns[of d step model dl randperm draws opt, OF k m B ne w p]
  obtain tl model' opt' where
    t: "train_epoch step draws randperm model opt dl = Inr (tl, model', opt')"
    by blast
  from train_unweighted_mean[of dl randperm step draws model opt tl model' opt', OF B p t] obtain tls where
    tls: "train_batch_losses step draws 0 (train_mode model) opt (iter_DataLoader randperm dl)
            = map Inr tls"
      "length tls = len_DataLoader dl" "tl = sum_list tls / real (length tls)"
    by blast
  have 2: "\<exists>loss model' opt' losses.
            train_epoch step draws randperm model opt dl = Inr (loss, model', opt')
          \<and> train_batch_losses step draws 0 (train_mode model) opt (iter_DataLoader randperm dl)
              = map Inr losses
          \<and> length losses = len_DataLoader dl
          \<and> loss = sum_list losses / real (len_DataLoader dl)"
    using t tls(1) tls(2) tls(3)[unfolded tls(2)] by blast
  have 3: "len_DataLoader dl = length (iter_DataLoader randperm dl)"
    using len_DataLoader_iter[of dl randperm, OF B p] by simp
  note 4 = iter_DataLoader_sizes[of dl randperm, OF B p]
  from 1 2 3 4 unequal_batches_example show ?thesis by blast
qed

theorem epoch_loss_is_unweighted_batch_mean_witness:
  "(\<exists>losses.
      train_batch_losses (\<lambda>m (opt :: unit) keep1 keep2 b. (m, opt)) (\<lambda>i. (no_draw, no_draw)) 0
          (train_mode (WineQualityNet_init (\<lambda>l i j. 0) (\<lambda>l i. 0) 1)) ()
          (iter_DataLoader (\<lambda>n. [0..<n])
             \<lparr>dataset = [([1], 0), ([2], 0), ([3], 3)], batch_size = 2, shuffle = False\<rparr>)
        = map Inr losses
    \<and> length losses = 2
    \<and> 9 / 2 = sum_list losses / 2)
   \<and> (\<exists>losses.
      map (batch_mse (eval_mode (WineQualityNet_init (\<lambda>l i j. 0) (\<lambda>l i. 0) 1)) no_draw no_draw)
        (iter_DataLoader (\<lambda>n. [0..<n])
           \<lparr>dataset = [([1], 0), ([2], 0), ([3], 3)], batch_size = 2, shuffle = False\<rparr>)
        = map Inr losses
    \<and> length losses = 2
    \<and> 9 / 2 = sum_list losses / 2)
   \<and> train_epoch (\<lambda>m (opt :: unit) keep1 keep2 b. (m, opt)) (\<lambda>i. (no_draw, no_draw)) (\<lambda>n. [0..<n])
        (WineQualityNet_init (\<lambda>l i j. 0) (\<lambda>l i. 0) 1) ()
        \<lparr>dataset = [([1], 0), ([2], 0), ([3], 3)], batch_size = 2, shuffle = False\<rparr>
      = Inr (9 / 2, train_mode (WineQualityNet_init (\<lambda>l i j. 0) (\<lambda>l i. 0) 1), ())
   \<and> map (\<lambda>b. length (fst b))
        (iter_DataLoader (\<lambda>n. [0..<n])
           \<lparr>dataset = [([1], 0), ([2], 0), ([3], 3)], batch_size = 2, shuffle = False\<rparr>)
      = replicate (3 div 2) 2 @ [3 mod 2]"
proof -
  let ?dl = "\<lparr>dataset = [([1], 0), ([2], 0), ([3::real], 3::real)], batch_size = 2, shuffle = False\<rparr>"
  let ?M = "WineQualityNet_init (\<lambda>l i j. 0) (\<lambda>l i. 0) 1"
  let ?step = "\<lambda>(m :: WineQualityNet) (opt :: unit) (keep1 :: mask) (keep2 :: mask) (b :: batch). (m, opt)"
  let ?draws = "\<lambda>i :: nat. (no_draw, no_draw)"
  have B: "0 < batch_size ?dl" by simp
  have p: "shuffle ?dl \<longrightarrow> mset [0..<length (dataset ?dl)] = mset [0..<length (dataset ?dl)]"
    by simp
  have m: "model_shape 1 ?M" by (rule WineQualityNet_init_shape)
  have ne: "dataset ?dl \<noteq> []" by simp
  have w: "has_width 1 (map fst (dataset ?dl))" by (simp add: has_width_def)
  have keeps: "\<forall>m opt k1 k2 b. model_shape 1 m \<longrightarrow> model_shape 1 (fst (?step m opt k1 k2 b))"
    by simp
  have len: "len_DataLoader ?dl = 2" by (simp add: len_DataLoader_def)
  note t = epoch_loss_is_unweighted_batch_mean
             [of ?dl "\<lambda>n. [0..<n]" 1 ?M ?step ?draws "()", OF B p m ne w keeps, unfolded len]
  note e = train_epoch_example
  from t have v: "fst (validate (\<lambda>n. [0..<n]) ?M ?dl) = Inr (9 / 2)" by blast
  from t obtain vl vls where
    a: "fst (validate (\<lambda>n. [0..<n]) ?M ?dl) = Inr vl"
       "map (batch_mse (eval_mode ?M) no_draw no_draw) (iter_DataLoader (\<lambda>n. [0..<n]) ?dl)
          = map Inr vls"
       "length vls = 2" "vl = sum_list vls / real 2"
    by blast
  from a(1) v have "vl = 9 / 2" by simp
  with a have 1: "\<exists>losses.
      map (batch_mse (eval_mode ?M) no_draw no_draw) (iter_DataLoader (\<lambda>n. [0..<n]) ?dl)
        = map Inr losses
    \<and> length losses = 2 \<and> 9 / 2 = sum_list losses / 2"
    by auto
  from t obtain tl m' o' tls where
    b: "train_epoch ?step ?draws (\<lambda>n. [0..<n]) ?M () ?dl = Inr (tl, m', o')"
       "train_batch_losses ?step ?draws 0 (train_mode ?M) () (iter_DataLoader (\<lambda>n. [0..<n]) ?dl)
          = map Inr tls"
       "length tls = 2" "tl = sum_list tls / real 2"
    by blast
  from b(1) e have "tl = 9 / 2" by simp
  with b have 2: "\<exists>losses.
      train_batch_losses ?step ?draws 0 (train_mode ?M) () (iter_DataLoader (\<lambda>n. [0..<n]) ?dl)
        = map Inr losses
    \<and> length losses = 2 \<and> 9 / 2 = sum_list losses / 2"
    by auto
  from t have 3: "map (\<lambda>b. length (fst b)) (iter_DataLoader (\<lambda>n. [0..<n]) ?dl)
                    = replicate (3 div 2) 2 @ [3 mod 2]"
    by simp
  from 1 2 3 e show ?thesis by blast
qed

text \<open>
  Batches of different sizes do not force the two values apart: for three samples with
  squared error 1 each, in batches of sizes 2 and 1, the epoch loss and the mean squared
  error over the samples are both 1.
\<close>

theorem equal_errors_counterexample:
  "fst (validate (\<lambda>n. [0..<n]) (WineQualityNet_init (\<lambda>l i j. 0) (\<lambda>l i. 0) 1)
          \<lparr>dataset = [([1], 1), ([2], 1), ([3], 1)], batch_size = 2, shuffle = False\<rparr>)
     = Inr 1
   \<and> partition_mse (eval_mode (WineQualityNet_init (\<lambda>l i j. 0) (\<lambda>l i. 0) 1))
          [([1], 1), ([2], 1), ([3], 1)] = Inr 1
   \<and> map (\<lambda>b. length (fst b))
         (iter_DataLoader (\<lambda>n. [0..<n])
            \<lparr>dataset = [([1], 1), ([2], 1), ([3], 1)], batch_size = 2, shuffle = False\<rparr>)
       = [2, 1]"
proof -
  let ?M = "eval_mode (WineQualityNet_init (\<lambda>l i j. 0) (\<lambda>l i. 0) 1)"
  let ?dl = "\<lparr>dataset = [([1], 1), ([2], 1), ([3::real], 1::real)], batch_size = 2, shuffle = False\<rparr>"
  have t: "\<not> training ?M" by (simp add: eval_mode_def)
  have sh: "model_shape 1 ?M" by (rule eval_mode_shape) (rule WineQualityNet_init_shape)
  have it: "iter_DataLoader (\<lambda>n. [0..<n]) ?dl = [collate [([1], 1), ([2], 1)], collate [([3], 1)]]"
    by (simp add: iter_DataLoader_def batch_sampler_step batch_sampler_Nil)
  have b1: "batch_mse ?M no_draw no_draw (collate [([1], 1), ([2], 1)]) = Inr 1"
    using batch_mse_eval[OF t sh, of "[([1], 1), ([2], 1)]" no_draw no_draw]
    by (simp add: has_width_def sample_error_def predict_row_zero)
  have b2: "batch_mse ?M no_draw no_draw (collate [([3], 1)]) = Inr 1"
    using batch_mse_eval[OF t sh, of "[([3], 1)]" no_draw no_draw]
    by (simp add: has_width_def sample_error_def predict_row_zero)
  have "validate_loop ?M (iter_DataLoader (\<lambda>n. [0..<n]) ?dl) 0 = Inr (0 + sum_list [1, 1])"
    by (rule validate_loop_sum) (simp only: it list.map b1 b2)
  then have 1: "fst (validate (\<lambda>n. [0..<n]) (WineQualityNet_init (\<lambda>l i j. 0) (\<lambda>l i. 0) 1) ?dl)
                  = Inr 1"
    by (simp add: validate_def Let_def len_DataLoader_def)
  have 2: "partition_mse ?M [([1], 1), ([2], 1), ([3], 1)] = Inr 1"
    using partition_mse_eval[OF t sh, of "[([1], 1), ([2], 1), ([3], 1)]"]
    by (simp add: has_width_def sample_error_def predict_row_zero)
  have 3: "map (\<lambda>b. length (fst b)) (iter_DataLoader (\<lambda>n. [0..<n]) ?dl) = [2, 1]"
    by (simp add: it collate_def)
  from 1 2 3 show ?thesis by blast
qed


section \<open>Properties of the evaluation metrics and of persistence\<close>












text \<open>
  With a single test sample the evaluation cell does not reach \<open>r2_score\<close>: the squeezed
  prediction is zero-dimensional and the first metric call raises.
\<close>

lemma evaluation_cell_single_sample:
  assumes "model_shape d model" and "length x = d"
  shows "fst (evaluation_cell model [x] [t]) = Inl TypeError"
proof -
  have w: "has_width d [x]" using assms(2) by (simp add: has_width_def)
  from forward_shape[OF eval_mode_shape[OF assms(1)] w, of no_draw no_draw] obtain out where
    o: "forward (eval_mode model) no_draw no_draw [x] = Inr out" "length out = 1"
      "has_width 1 out"
    by auto
  then obtain v where "out = [[v]]"
    by (cases out; cases "hd out"; cases "tl (hd out)") (auto simp: has_width_def)
  with o(1) show ?thesis
    by (simp add: evaluation_cell_def Let_def squeeze_numpy_def test_metrics_def)
qed

lemma load_Linear_same:
  assumes "Linear_shape n_in n_out l"
  shows "load_Linear (nn_Linear w_init b_init n_in n_out)
           (Some (Tensor2 (weight l))) (Some (Tensor1 (bias l))) = Inr l"
proof -
  have "nn_Linear w_init b_init n_in n_out\<lparr>weight := weight l, bias := bias l\<rparr> = l"
    using assms by (intro Linear.equality) (simp_all add: nn_Linear_def Linear_shape_def)
  then show ?thesis
    using assms by (simp add: load_Linear_def Linear_shape_def nn_Linear_def)
qed

lemma state_dict_names: "set (map fst (state_dict model)) = set parameter_names"
  by (simp add: state_dict_def parameter_names_def)

lemma load_state_dict_same:
  assumes "model_shape d model"
  shows "load_state_dict (WineQualityNet_init w_init b_init d) (state_dict model)
           = Inr (train_mode model)"
proof -
  from assms have s: "Linear_shape d 64 (fc1 model)" "Linear_shape 64 32 (fc2 model)"
    "Linear_shape 32 16 (fc3 model)" "Linear_shape 16 1 (fc4 model)" "dropout_p model = 0.2"
    by (simp_all add: model_shape_def)
  have l: "map_of (state_dict model) ''fc1.weight'' = Some (Tensor2 (weight (fc1 model)))"
    "map_of (state_dict model) ''fc1.bias'' = Some (Tensor1 (bias (fc1 model)))"
    "map_of (state_dict model) ''fc2.weight'' = Some (Tensor2 (weight (fc2 model)))"
    "map_of (state_dict model) ''fc2.bias'' = Some (Tensor1 (bias (fc2 model)))"
    "map_of (state_dict model) ''fc3.weight'' = Some (Tensor2 (weight (fc3 model)))"
    "map_of (state_dict model) ''fc3.bias'' = Some (Tensor1 (bias (fc3 model)))"
    "map_of (state_dict model) ''fc4.weight'' = Some (Tensor2 (weight (fc4 model)))"
    "map_of (state_dict model) ''fc4.bias'' = Some (Tensor1 (bias (fc4 model)))"
    by (simp_all add: state_dict_def)
  have f: "fc1 (WineQualityNet_init w_init b_init d) = nn_Linear (w_init 1) (b_init 1) d 64"
    "fc2 (WineQualityNet_init w_init b_init d) = nn_Linear (w_init 2) (b_init 2) 64 32"
    "fc3 (WineQualityNet_init w_init b_init d) = nn_Linear (w_init 3) (b_init 3) 32 16"
    "fc4 (WineQualityNet_init w_init b_init d) = nn_Linear (w_init 4) (b_init 4) 16 1"
    by (simp_all add: WineQualityNet_init_def)
  have "WineQualityNet_init w_init b_init d
          \<lparr>fc1 := fc1 model, fc2 := fc2 model, fc3 := fc3 model, fc4 := fc4 model\<rparr>
        = train_mode model"
    using s(5) by (intro WineQualityNet.equality) (simp_all add: WineQualityNet_init_def train_mode_def)
  moreover have "load_state_dict (WineQualityNet_init w_init b_init d) (state_dict model)
        = Inr (WineQualityNet_init w_init b_init d
                 \<lparr>fc1 := fc1 model, fc2 := fc2 model, fc3 := fc3 model, fc4 := fc4 model\<rparr>)"
    unfolding load_state_dict_def state_dict_names l f
      load_Linear_same[OF s(1)] load_Linear_same[OF s(2)]
      load_Linear_same[OF s(3)] load_Linear_same[OF s(4)]
    by simp
  ultimately show ?thesis by simp
qed

lemma eval_mode_train_mode: "eval_mode (train_mode model) = eval_mode model"
  by (simp add: eval_mode_def train_mode_def)

text \<open>
  With the keyword spelled \<open>weights_only\<close> the round trip holds: the loaded model is the
  saved model in evaluation mode, so its predictions are the saved model's
  evaluation-mode predictions on every input.
\<close>

lemma save_then_load_with_weights_only:
  assumes "model_shape (n_features X_train) model"
  shows "load_model_with [''weights_only''] w_init b_init
           (save_model_cell model optimizer_state fitted_scaler X_train losses_train losses_val fs)
         = Inr (eval_mode model)"
  by (simp add: load_model_with_def save_model_cell_def torch_load_def torch_save_def normpath_def
      torch_load_keywords_def unpickler_keywords_def load_state_dict_same[OF assms]
      eval_mode_train_mode)

text \<open>
  Claim C4 on the code. The load cell calls \<open>torch.load\<close> with the keyword
  \<open>weighta_only\<close>, which neither \<open>torch.load\<close> nor the unpickler knows: after the save
  cell has written the checkpoint, the load cell raises \<open>TypeError\<close> and no model is
  built.
\<close>

theorem load_model_cell_raises:
  "load_model_cell w_init b_init
     (save_model_cell model optimizer_state fitted_scaler X_train losses_train losses_val fs)
   = Inl TypeError"
  by (simp add: load_model_cell_def load_model_with_def save_model_cell_def torch_load_def
      torch_save_def normpath_def torch_load_keywords_def unpickler_keywords_def)

end
